theory Spec2Isabelle
  imports Main "HOL-Library.AList"
begin

section \<open>Python values\<close>

text \<open>
  The exceptions the module raises or lets through.  \<open>TypeError\<close>, \<open>KeyError\<close> and
  \<open>AttributeError\<close> are the interpreter's own (Python 3 semantics: iterating or comparing
  \<open>None\<close>, subscripting a class, a missing dictionary key, a missing method).
\<close>

datatype error =
    NotFoundException
  | UnknownErrorException
  | ConnectionFailed
  | AssertionError
  | TypeError
  | KeyError
  | IndexError
  | AttributeError

text \<open>
  Hashable atoms: what \<open>Element.getValue()\<close> hands back for a scalar element, and what the
  module uses as dictionary keys.  A float is carried by its \<open>repr\<close> (the module never
  computes with one); dates and times by their fields; \<open>SClass\<close> is a class object such
  as the builtin \<open>NotImplementedError\<close>.
\<close>

datatype scalar =
    SNone
  | SBool bool
  | SInt int
  | SFloat string
  | SStr string
  | SDate nat nat nat
  | STime nat nat nat
  | SDateTime nat nat nat nat nat nat
  | SClass string

text \<open>
  A dictionary is an association list in insertion order.  Python finds a key by \<open>==\<close>:
  \<open>True\<close> and \<open>1\<close> are one key, and so is a float that prints as \<open>1.0\<close>.  \<open>key_norm\<close>
  gives every atom the representative of its class: a boolean the integer it equals, a
  float printed in fixed notation with fraction \<open>.0\<close> the integer before the point.  (A
  float printed with an exponent is kept by its print: its exact value is not part of
  this model.)  \<open>store\<close> is \<open>d[k] = v\<close>: it replaces the value under an equal key, keeping
  the key that is there, and appends a new key.
\<close>

definition digits :: "char set" where
  "digits = set ''0123456789''"

definition digits_value :: "string \<Rightarrow> nat" where
  "digits_value ds = foldl (\<lambda>n c. 10 * n + (of_char c - 48)) 0 ds"

definition whole_float :: "string \<Rightarrow> int option" where
  "whole_float r =
     (let negative = (r \<noteq> [] \<and> hd r = CHR ''-'');
          body = (if negative then tl r else r);
          whole = takeWhile (\<lambda>c. c \<in> digits) body;
          fraction = dropWhile (\<lambda>c. c \<in> digits) body
      in if whole \<noteq> [] \<and> fraction = ''.0''
         then Some (if negative then - int (digits_value whole) else int (digits_value whole))
         else None)"

fun key_norm :: "scalar \<Rightarrow> scalar" where
  "key_norm (SBool b) = SInt (if b then 1 else 0)"
| "key_norm (SFloat r) = (case whole_float r of Some i \<Rightarrow> SInt i | None \<Rightarrow> SFloat r)"
| "key_norm k = k"

definition key_eq :: "scalar \<Rightarrow> scalar \<Rightarrow> bool" where
  "key_eq a b = (key_norm a = key_norm b)"

datatype pyval =
    PScalar scalar
  | PList "pyval list"
  | PDict "(scalar \<times> pyval) list"

type_synonym dict = "(scalar \<times> pyval) list"

abbreviation PNone :: pyval where
  "PNone \<equiv> PScalar SNone"

abbreviation PStr :: "string \<Rightarrow> pyval" where
  "PStr s \<equiv> PScalar (SStr s)"

fun lookup :: "dict \<Rightarrow> scalar \<Rightarrow> pyval option" where
  "lookup [] k = None"
| "lookup ((k', v) # rest) k = (if key_eq k' k then Some v else lookup rest k)"

fun store :: "scalar \<Rightarrow> pyval \<Rightarrow> dict \<Rightarrow> dict" where
  "store k v [] = [(k, v)]"
| "store k v ((k', v') # rest) =
     (if key_eq k' k then (k', v) # rest else (k', v') # store k v rest)"

definition dict_contains :: "dict \<Rightarrow> scalar \<Rightarrow> bool" where
  "dict_contains d k = (lookup d k \<noteq> None)"

definition dict_set :: "dict \<Rightarrow> scalar \<Rightarrow> pyval \<Rightarrow> dict" where
  "dict_set d k v = store k v d"

definition dict_getitem :: "dict \<Rightarrow> scalar \<Rightarrow> error + pyval" where
  "dict_getitem d k = (case lookup d k of None \<Rightarrow> Inl KeyError | Some v \<Rightarrow> Inr v)"

text \<open>
  The atoms that are equal to no other atom: for such a key \<open>lookup\<close> is \<open>map_of\<close> and
  \<open>store\<close> is \<open>AList.update\<close>.
\<close>

fun plain :: "scalar \<Rightarrow> bool" where
  "plain (SBool b) = False"
| "plain (SInt i) = False"
| "plain (SFloat r) = False"
| "plain k = True"

definition dict_setdefault :: "dict \<Rightarrow> scalar \<Rightarrow> pyval \<Rightarrow> dict" where
  "dict_setdefault d k v = (if dict_contains d k then d else dict_set d k v)"

text \<open>Truthiness, as \<open>if x:\<close> and \<open>x or y\<close> test it.\<close>

fun truthy :: "pyval \<Rightarrow> bool" where
  "truthy (PScalar SNone) = False"
| "truthy (PScalar (SBool b)) = b"
| "truthy (PScalar (SInt i)) = (i \<noteq> 0)"
| "truthy (PScalar (SFloat r)) = (r \<noteq> ''0.0'' \<and> r \<noteq> ''-0.0'')"
| "truthy (PScalar (SStr s)) = (s \<noteq> [])"
| "truthy (PScalar (SDate y m d)) = True"
| "truthy (PScalar (STime h m s)) = True"
| "truthy (PScalar (SDateTime y m d h mi s)) = True"
| "truthy (PScalar (SClass c)) = True"
| "truthy (PList xs) = (xs \<noteq> [])"
| "truthy (PDict d) = (d \<noteq> [])"

definition py_or :: "pyval \<Rightarrow> pyval \<Rightarrow> pyval" where
  "py_or a b = (if truthy a then a else b)"

definition ebind :: "error + 'a \<Rightarrow> ('a \<Rightarrow> error + 'b) \<Rightarrow> error + 'b" where
  "ebind m f = (case m of Inl e \<Rightarrow> Inl e | Inr x \<Rightarrow> f x)"

section \<open>Text renderings\<close>

text \<open>
  \<open>str(n)\<close> for a natural number, \<open>str(x)\<close> for an atom, and \<open>strftime\<close> with the
  directives the module uses.  \<open>%m %d %H %M %S\<close> print two digits; \<open>%Y\<close> prints the year as
  the C library does, without leading zeros, so a year below 1000 has fewer than four
  digits (\<open>str\<close> of a date, its ISO form, has four).  A \<open>date\<close> has midnight as its time, a
  \<open>time\<close> has 1900-01-01 as its date; any other value has no \<open>strftime\<close> method.
\<close>

definition digit_char :: "nat \<Rightarrow> char" where
  "digit_char n = ''0123456789'' ! (n mod 10)"

function str_nat :: "nat \<Rightarrow> string" where
  "str_nat n = (if n < 10 then [digit_char n] else str_nat (n div 10) @ [digit_char n])"
  by pat_completeness auto
termination
  by (relation "measure id") auto

declare str_nat.simps [simp del]

definition pad2 :: "nat \<Rightarrow> string" where
  "pad2 n = [digit_char (n div 10), digit_char n]"

definition pad4 :: "nat \<Rightarrow> string" where
  "pad4 n = [digit_char (n div 1000), digit_char (n div 100), digit_char (n div 10), digit_char n]"

fun py_str :: "scalar \<Rightarrow> string" where
  "py_str SNone = ''None''"
| "py_str (SBool b) = (if b then ''True'' else ''False'')"
| "py_str (SInt i) = (if i < 0 then ''-'' @ str_nat (nat (- i)) else str_nat (nat i))"
| "py_str (SFloat r) = r"
| "py_str (SStr s) = s"
| "py_str (SDate y m d) = pad4 y @ ''-'' @ pad2 m @ ''-'' @ pad2 d"
| "py_str (STime h m s) = pad2 h @ '':'' @ pad2 m @ '':'' @ pad2 s"
| "py_str (SDateTime y m d h mi s) =
     pad4 y @ ''-'' @ pad2 m @ ''-'' @ pad2 d @ '' '' @ pad2 h @ '':'' @ pad2 mi @ '':'' @ pad2 s"
| "py_str (SClass c) = ''<class '' @ c @ ''>''"

record time_fields =
  tf_year :: nat
  tf_month :: nat
  tf_day :: nat
  tf_hour :: nat
  tf_minute :: nat
  tf_second :: nat

fun strftime_fields :: "scalar \<Rightarrow> time_fields option" where
  "strftime_fields (SDate y m d) =
     Some \<lparr>tf_year = y, tf_month = m, tf_day = d, tf_hour = 0, tf_minute = 0, tf_second = 0\<rparr>"
| "strftime_fields (STime h m s) =
     Some \<lparr>tf_year = 1900, tf_month = 1, tf_day = 1, tf_hour = h, tf_minute = m, tf_second = s\<rparr>"
| "strftime_fields (SDateTime y m d h mi s) =
     Some \<lparr>tf_year = y, tf_month = m, tf_day = d, tf_hour = h, tf_minute = mi, tf_second = s\<rparr>"
| "strftime_fields v = None"

definition directive :: "char \<Rightarrow> time_fields \<Rightarrow> string" where
  "directive c f =
     (if c = CHR ''Y'' then str_nat (tf_year f)
      else if c = CHR ''m'' then pad2 (tf_month f)
      else if c = CHR ''d'' then pad2 (tf_day f)
      else if c = CHR ''H'' then pad2 (tf_hour f)
      else if c = CHR ''M'' then pad2 (tf_minute f)
      else if c = CHR ''S'' then pad2 (tf_second f)
      else [CHR ''%'', c])"

fun format_fields :: "string \<Rightarrow> time_fields \<Rightarrow> string" where
  "format_fields [] f = []"
| "format_fields [c] f = [c]"
| "format_fields (c # d # rest) f =
     (if c = CHR ''%'' then directive d f @ format_fields rest f
      else c # format_fields (d # rest) f)"

definition strftime :: "pyval \<Rightarrow> string \<Rightarrow> error + pyval" where
  "strftime v fmt =
     (case v of
        PScalar s \<Rightarrow>
          (case strftime_fields s of
             None \<Rightarrow> Inl AttributeError
           | Some f \<Rightarrow> Inr (PStr (format_fields fmt f)))
      | _ \<Rightarrow> Inl AttributeError)"

definition has_strftime :: "pyval \<Rightarrow> bool" where
  "has_strftime v = (case v of PScalar s \<Rightarrow> strftime_fields s \<noteq> None | _ \<Rightarrow> False)"

section \<open>Wire elements\<close>

text \<open>
  The provider library's \<open>DataType\<close> constants and its \<open>Element\<close>, as far as the module
  asks: name, declared kind, validity, the two shape tests, the scalar value, and the
  children (what \<open>values()\<close> gives for an array and \<open>elements()\<close> for a complex record).
  A message is read through its top element.  The constant \<open>DataType.CHAR\<close> is written
  \<open>CHAR_TYPE\<close>.
\<close>

datatype DataType =
    BOOL | CHAR_TYPE | BYTE | INT32 | INT64 | FLOAT32 | FLOAT64 | STRING | BYTEARRAY
  | DATE | TIME | DECIMAL | DATETIME | ENUMERATION | SEQUENCE | CHOICE | CORRELATION_ID

datatype element =
  Element (el_name: string) (el_datatype: DataType) (isValid: bool) (isArray: bool)
    (isComplexType: bool) (getValue: scalar) (children: "element list")

definition BBG_SEQUENCES :: "DataType list" where
  "BBG_SEQUENCES = [SEQUENCE, BYTEARRAY, CHOICE]"

definition SECURITY_DATA :: string where "SECURITY_DATA = ''securityData''"
definition SECURITY :: string where "SECURITY = ''security''"
definition BAR_DATA :: string where "BAR_DATA = ''barData''"
definition BAR_TICK_DATA :: string where "BAR_TICK_DATA = ''barTickData''"
definition FIELD_DATA :: string where "FIELD_DATA = ''fieldData''"
definition FIELD_EXCEPTIONS :: string where "FIELD_EXCEPTIONS = ''fieldExceptions''"
definition SECURITY_ERROR :: string where "SECURITY_ERROR = ''securityError''"
definition RESPONSE_ERROR :: string where "RESPONSE_ERROR = ''responseError''"
definition FIELD_ID :: string where "FIELD_ID = ''fieldId''"
definition ERROR_INFO :: string where "ERROR_INFO = ''errorInfo''"
definition CATEGORY :: string where "CATEGORY = ''category''"

definition hasElement :: "element \<Rightarrow> string \<Rightarrow> bool" where
  "hasElement e n = (find (\<lambda>c. el_name c = n) (children e) \<noteq> None)"

definition getElement :: "element \<Rightarrow> string \<Rightarrow> error + element" where
  "getElement e n =
     (case find (\<lambda>c. el_name c = n) (children e) of
        None \<Rightarrow> Inl NotFoundException
      | Some c \<Rightarrow> Inr c)"

definition getElementAsString :: "element \<Rightarrow> string \<Rightarrow> error + string" where
  "getElementAsString e n = ebind (getElement e n) (\<lambda>c. Inr (py_str (getValue c)))"

text \<open>
  \<open>_get_bbg_iterator\<close> and \<open>_get_iterator_len\<close>: an element that is neither an array nor a
  complex record falls off the end of both, so the caller gets \<open>None\<close>.
\<close>

definition get_bbg_iterator :: "element \<Rightarrow> element list option" where
  "get_bbg_iterator obj =
     (if isArray obj then Some (children obj)
      else if isComplexType obj then Some (children obj)
      else None)"

definition get_iterator_len :: "element \<Rightarrow> nat option" where
  "get_iterator_len obj =
     (if isArray obj then Some (length (children obj))
      else if isComplexType obj then Some (length (children obj))
      else None)"

text \<open>\<open>for x in it\<close> and \<open>n > c\<close> on a value that may be \<open>None\<close>.\<close>

definition iterate :: "'a list option \<Rightarrow> error + 'a list" where
  "iterate it = (case it of None \<Rightarrow> Inl TypeError | Some xs \<Rightarrow> Inr xs)"

definition greater_than :: "nat option \<Rightarrow> nat \<Rightarrow> error + bool" where
  "greater_than n c = (case n of None \<Rightarrow> Inl TypeError | Some m \<Rightarrow> Inr (c < m))"

section \<open>Scalar type decoder\<close>

text \<open>
  \<open>DataTypeFactory\<close>: every handler returns the list \<open>[name, value]\<close>, except the two for
  correlation ids and enumerations, whose body is \<open>return NotImplementedError\<close>: they
  return the class.
\<close>

definition name_value :: "element \<Rightarrow> pyval" where
  "name_value data = PList [PStr (el_name data), PScalar (getValue data)]"

definition process_bool :: "element \<Rightarrow> error + pyval" where
  "process_bool data = Inr (name_value data)"

definition process_byte :: "element \<Rightarrow> error + pyval" where
  "process_byte data = Inr (name_value data)"

definition process_byte_array :: "element \<Rightarrow> error + pyval" where
  "process_byte_array data = Inr (name_value data)"

definition process_char :: "element \<Rightarrow> error + pyval" where
  "process_char data = Inr (name_value data)"

definition process_correlation_id :: "element \<Rightarrow> error + pyval" where
  "process_correlation_id data = Inr (PScalar (SClass ''NotImplementedError''))"

definition process_date :: "element \<Rightarrow> error + pyval" where
  "process_date data =
     ebind (strftime (PScalar (getValue data)) ''%Y-%m-%d'')
       (\<lambda>v. Inr (PList [PStr (el_name data), v]))"

definition process_date_time :: "element \<Rightarrow> error + pyval" where
  "process_date_time data =
     ebind (strftime (PScalar (getValue data)) ''%Y-%m-%d %H:%M:%S'')
       (\<lambda>v. Inr (PList [PStr (el_name data), v]))"

definition process_enumeration :: "element \<Rightarrow> error + pyval" where
  "process_enumeration data = Inr (PScalar (SClass ''NotImplementedError''))"

definition process_string :: "element \<Rightarrow> error + pyval" where
  "process_string data = Inr (name_value data)"

definition process_time :: "element \<Rightarrow> error + pyval" where
  "process_time data =
     ebind (strftime (PScalar (getValue data)) ''%H:%M:%S'')
       (\<lambda>v. Inr (PList [PStr (el_name data), v]))"

definition process_scalar :: "element \<Rightarrow> error + pyval" where
  "process_scalar data = Inr (name_value data)"

text \<open>The lookup table of \<open>_field_factory\<close>; \<open>SEQUENCE\<close> and \<open>CHOICE\<close> have no entry.\<close>

fun process_factory :: "DataType \<Rightarrow> (element \<Rightarrow> error + pyval) option" where
  "process_factory BOOL = Some process_bool"
| "process_factory BYTE = Some process_byte"
| "process_factory BYTEARRAY = Some process_byte_array"
| "process_factory CHAR_TYPE = Some process_char"
| "process_factory CORRELATION_ID = Some process_correlation_id"
| "process_factory DATE = Some process_date"
| "process_factory DATETIME = Some process_date_time"
| "process_factory DECIMAL = Some process_scalar"
| "process_factory ENUMERATION = Some process_enumeration"
| "process_factory FLOAT32 = Some process_scalar"
| "process_factory FLOAT64 = Some process_scalar"
| "process_factory INT32 = Some process_scalar"
| "process_factory INT64 = Some process_scalar"
| "process_factory STRING = Some process_string"
| "process_factory TIME = Some process_time"
| "process_factory SEQUENCE = None"
| "process_factory CHOICE = None"

text \<open>\<open>x[i]\<close> for a natural index: a class and an atom other than a string cannot be
  subscripted.\<close>

fun subscript :: "pyval \<Rightarrow> nat \<Rightarrow> error + pyval" where
  "subscript (PList xs) i = (if i < length xs then Inr (xs ! i) else Inl IndexError)"
| "subscript (PDict d) i = dict_getitem d (SInt (int i))"
| "subscript (PScalar (SStr s)) i = (if i < length s then Inr (PStr [s ! i]) else Inl IndexError)"
| "subscript (PScalar v) i = Inl TypeError"

text \<open>
  \<open>_field_factory\<close>: calling the missing table entry (\<open>None\<close>) is a \<open>TypeError\<close>; the
  \<open>except Exception: raise\<close> passes every exception on.
\<close>

definition field_factory :: "element \<Rightarrow> error + pyval list" where
  "field_factory data =
     (case process_factory (el_datatype data) of
        None \<Rightarrow> Inl TypeError
      | Some process \<Rightarrow>
          ebind (process data) (\<lambda>single_val_results.
          ebind (subscript single_val_results 0) (\<lambda>a.
          ebind (subscript single_val_results 1) (\<lambda>b. Inr [a, b]))))"

section \<open>Recursive element decoder\<close>

text \<open>
  \<open>d[k] = v\<close> where \<open>d\<close> may be \<open>None\<close> and \<open>k\<close> any value: storing into \<open>None\<close> and an
  unhashable key are both a \<open>TypeError\<close>.
\<close>

definition setitem :: "dict option \<Rightarrow> pyval \<Rightarrow> pyval \<Rightarrow> error + dict" where
  "setitem results k v =
     (case results of
        None \<Rightarrow> Inl TypeError
      | Some r \<Rightarrow> (case k of PScalar a \<Rightarrow> Inr (dict_set r a v) | _ \<Rightarrow> Inl TypeError))"

text \<open>
  \<open>_element_factory\<close>.  The list \<open>duplicate_elements\<close> is shared by all the recursive calls,
  so it is threaded through and returned with the result.  The children are decoded into
  the dictionary stored under \<open>element_name\<close>, which the source mutates in place: the
  model decodes them into an empty dictionary and stores the outcome under the same key.
\<close>

function element_factory :: "element \<Rightarrow> string list \<Rightarrow> dict option \<Rightarrow> error + string list \<times> dict"
  and element_factory_each :: "element list \<Rightarrow> string list \<Rightarrow> dict \<Rightarrow> error + string list \<times> dict"
where
  "element_factory element duplicate_elements results =
     (if \<not> isValid element then Inl NotFoundException
      else if el_datatype element \<in> set BBG_SEQUENCES then
        (let results = (case results of None \<Rightarrow> [] | Some r \<Rightarrow> r);
             duplicate = dict_contains results (SStr (el_name element));
             element_name =
               (if \<not> duplicate then el_name element
                else el_name element @ ''_'' @ str_nat (length duplicate_elements));
             duplicate_elements =
               (if \<not> duplicate then duplicate_elements else duplicate_elements @ [element_name]);
             results = dict_set results (SStr element_name) (PDict [])
         in case iterate (get_bbg_iterator element) of
              Inl e \<Rightarrow> Inl e
            | Inr sub_elements \<Rightarrow>
                (case element_factory_each sub_elements duplicate_elements [] of
                   Inl e \<Rightarrow> Inl e
                 | Inr (duplicate_elements, entry) \<Rightarrow>
                     Inr (duplicate_elements, dict_set results (SStr element_name) (PDict entry))))
      else
        (case field_factory element of
           Inl e \<Rightarrow> Inl e
         | Inr single_value \<Rightarrow>
             (case setitem results (single_value ! 0) (single_value ! 1) of
                Inl e \<Rightarrow> Inl e
              | Inr results \<Rightarrow> Inr (duplicate_elements, results))))"
| "element_factory_each [] duplicate_elements entry = Inr (duplicate_elements, entry)"
| "element_factory_each (sub_element # rest) duplicate_elements entry =
     (case element_factory sub_element duplicate_elements (Some entry) of
        Inl e \<Rightarrow> Inl e
      | Inr (duplicate_elements, entry) \<Rightarrow> element_factory_each rest duplicate_elements entry)"
  by pat_completeness auto
termination
proof (relation "measure (\<lambda>x. case x of Inl (e, _, _) \<Rightarrow> 2 * size e | Inr (es, _, _) \<Rightarrow> 2 * size_list size es + 1)")
  show "wf (measure (\<lambda>x. case x of Inl (e, _, _) \<Rightarrow> 2 * size e | Inr (es, _, _) \<Rightarrow> 2 * size_list size es + 1))"
    by simp
next
  fix element :: element and duplicate_elements xc :: "string list"
    and results :: "dict option" and y :: "element list"
  assume "iterate (get_bbg_iterator element) = Inr y"
  then have "y = children element"
    by (auto simp: iterate_def get_bbg_iterator_def split: if_splits)
  then show "(Inr (y, xc, []), Inl (element, duplicate_elements, results))
      \<in> measure (\<lambda>x. case x of Inl (e, _, _) \<Rightarrow> 2 * size e | Inr (es, _, _) \<Rightarrow> 2 * size_list size es + 1)"
    by (cases element) simp
qed auto

declare element_factory.simps [simp del]

section \<open>Structural flattener\<close>

text \<open>
  \<open>_flatten_dict\<close>: a non-dictionary and a dictionary of more than one key come back as
  they are; in a one-key dictionary the loop returns in its first round; over an empty
  dictionary the loop body never runs and the function falls off its end, which is
  \<open>None\<close>.
\<close>

fun is_dict :: "pyval \<Rightarrow> bool" where
  "is_dict (PDict d) = True"
| "is_dict v = False"

fun py_len :: "pyval \<Rightarrow> nat" where
  "py_len (PDict d) = length d"
| "py_len (PList xs) = length xs"
| "py_len v = 0"

fun flatten_dict :: "pyval \<Rightarrow> pyval" where
  "flatten_dict (PScalar s) = PScalar s"
| "flatten_dict (PList xs) = PList xs"
| "flatten_dict (PDict (a # b # r)) = PDict (a # b # r)"
| "flatten_dict (PDict [(k, v)]) =
     (if is_dict v \<and> py_len v = 1 then v else flatten_dict v)"
| "flatten_dict (PDict []) = PNone"

section \<open>Error mappings\<close>

text \<open>\<open>_response_error_factory\<close>, \<open>_security_error_factory\<close>, \<open>_field_exception_factory\<close>.\<close>

definition response_error_factory :: "element \<Rightarrow> error + dict" where
  "response_error_factory response_array =
     ebind (iterate (get_bbg_iterator response_array)) (\<lambda>its.
       Inr (fold (\<lambda>response_error response_errors.
                    dict_set response_errors (SStr (el_name response_error))
                      (PScalar (getValue response_error))) its []))"

definition security_error_factory :: "element \<Rightarrow> error + dict" where
  "security_error_factory security_error =
     ebind (iterate (get_bbg_iterator security_error)) (\<lambda>its.
       Inr (fold (\<lambda>err security_errors.
                    dict_set security_errors (SStr (el_name err)) (PScalar (getValue err))) its []))"

fun field_exception_loop :: "element list \<Rightarrow> dict \<Rightarrow> error + dict" where
  "field_exception_loop [] field_exceptions = Inr field_exceptions"
| "field_exception_loop (field_exception # rest) field_exceptions =
     ebind (getElement field_exception ERROR_INFO) (\<lambda>error_info.
     ebind (getElementAsString field_exception FIELD_ID) (\<lambda>field_id.
     ebind (getElementAsString error_info CATEGORY) (\<lambda>category.
       field_exception_loop rest (dict_set field_exceptions (SStr category) (PStr field_id)))))"

definition field_exception_factory :: "element \<Rightarrow> error + dict" where
  "field_exception_factory field_exception_array =
     ebind (iterate (get_bbg_iterator field_exception_array)) (\<lambda>its.
       field_exception_loop its [])"

section \<open>Message decoders\<close>

record message =
  correlationIds :: "nat list"
  messageType :: string
  asElement :: element

text \<open>\<open>_process_intraday_data_msg\<close>.\<close>

definition bar_record :: "element \<Rightarrow> dict" where
  "bar_record bar_tick_data =
     fold (\<lambda>element data. dict_setdefault data (SStr (el_name element)) (PScalar (getValue element)))
       (children bar_tick_data) []"

fun intraday_loop :: "element list \<Rightarrow> dict \<Rightarrow> error + dict" where
  "intraday_loop [] results = Inr results"
| "intraday_loop (bar_tick_data # rest) results =
     (let data = bar_record bar_tick_data
      in ebind (dict_getitem data (SStr ''time'')) (\<lambda>t.
           ebind (setitem (Some results) t (PDict data)) (\<lambda>results.
             intraday_loop rest results)))"

definition process_intraday_data_msg :: "message \<Rightarrow> error + string option \<times> dict" where
  "process_intraday_data_msg msg =
     (if hasElement (asElement msg) RESPONSE_ERROR then
        ebind (getElement (asElement msg) RESPONSE_ERROR) (\<lambda>e.
        ebind (response_error_factory e) (\<lambda>errors. Inr (None, errors)))
      else if \<not> hasElement (asElement msg) BAR_DATA then Inl NotFoundException
      else
        ebind (getElement (asElement msg) BAR_DATA) (\<lambda>bar_data.
        ebind (getElement bar_data BAR_TICK_DATA) (\<lambda>ticks.
        ebind (intraday_loop (children ticks) []) (\<lambda>results. Inr (None, results)))))"

text \<open>
  \<open>_process_ref_data_msg\<close>.  \<open>security_result\<close> is the loop body up to the point where
  the Per-Security Result is stored; \<open>ref_loop\<close> stores it, nested under the security or
  flat, by the length of the collection.
\<close>

definition per_security_result :: "pyval \<Rightarrow> dict \<Rightarrow> dict \<Rightarrow> dict" where
  "per_security_result security_data_results field_exceptions security_errors =
     [(SStr ''security_data'', security_data_results),
      (SStr ''field_exceptions'', PDict field_exceptions),
      (SStr ''security_errors'', PDict security_errors)]"

definition security_result :: "element \<Rightarrow> error + string \<times> dict" where
  "security_result item =
     ebind (getElementAsString item SECURITY) (\<lambda>security.
     ebind (getElement item FIELD_DATA) (\<lambda>field_data.
     ebind (greater_than (get_iterator_len field_data) 0) (\<lambda>has_fields.
     ebind (if has_fields
            then ebind (element_factory field_data [] None) (\<lambda>(duplicates, decoded).
                   Inr (flatten_dict (PDict decoded)))
            else Inr (PDict [])) (\<lambda>security_data_results.
     ebind (if hasElement item SECURITY_ERROR
            then ebind (getElement item SECURITY_ERROR) security_error_factory
            else Inr []) (\<lambda>security_errors.
     ebind (getElement item FIELD_EXCEPTIONS) (\<lambda>exceptions.
     ebind (greater_than (get_iterator_len exceptions) 0) (\<lambda>has_exceptions.
     ebind (if has_exceptions then field_exception_factory exceptions else Inr [])
       (\<lambda>field_exceptions.
          Inr (security,
               per_security_result security_data_results field_exceptions
                 security_errors)))))))))"

fun ref_loop :: "nat option \<Rightarrow> element list \<Rightarrow> string option \<times> dict \<Rightarrow> error + string option \<times> dict" where
  "ref_loop security_iterator_len [] state = Inr state"
| "ref_loop security_iterator_len (item # rest) (security, results) =
     ebind (security_result item) (\<lambda>(sec, result).
     ebind (greater_than security_iterator_len 1) (\<lambda>nested.
       ref_loop security_iterator_len rest
         (Some sec, if nested then dict_set results (SStr sec) (PDict result) else result)))"

definition process_ref_data_msg :: "message \<Rightarrow> error + string option \<times> dict" where
  "process_ref_data_msg msg =
     (if hasElement (asElement msg) RESPONSE_ERROR then
        ebind (getElement (asElement msg) RESPONSE_ERROR) (\<lambda>e.
        ebind (response_error_factory e) (\<lambda>errors. Inr (None, errors)))
      else if \<not> hasElement (asElement msg) SECURITY_DATA then Inl NotFoundException
      else
        ebind (getElement (asElement msg) SECURITY_DATA) (\<lambda>security_data.
        ebind (iterate (get_bbg_iterator security_data)) (\<lambda>security_iterator.
        ebind (ref_loop (get_iterator_len security_data) security_iterator (None, []))
          (\<lambda>(security, results).
        ebind (greater_than (get_iterator_len security_data) 1) (\<lambda>nested.
          Inr (if nested then None else security, results))))))"

text \<open>\<open>_process_historical_data_msg\<close>.\<close>

definition historical_record :: "element list \<Rightarrow> dict \<Rightarrow> scalar \<times> dict \<times> dict" where
  "historical_record elements security_data_results =
     fold (\<lambda>element (date, item_data, security_data_results).
             if el_name element = ''date''
             then (getValue element, item_data,
                   dict_setdefault security_data_results (getValue element) (PDict []))
             else (date, dict_set item_data (SStr (el_name element)) (PScalar (getValue element)),
                   security_data_results))
       elements (SNone, [], security_data_results)"

fun historical_loop :: "element list \<Rightarrow> dict \<Rightarrow> error + dict" where
  "historical_loop [] security_data_results = Inr security_data_results"
| "historical_loop (item # rest) security_data_results =
     ebind (iterate (get_bbg_iterator item)) (\<lambda>elements.
       (case historical_record elements security_data_results of
          (date, item_data, security_data_results) \<Rightarrow>
            historical_loop rest (dict_set security_data_results date (PDict item_data))))"

definition process_historical_data_msg :: "message \<Rightarrow> error + string option \<times> dict" where
  "process_historical_data_msg msg =
     (if hasElement (asElement msg) RESPONSE_ERROR then
        ebind (getElement (asElement msg) RESPONSE_ERROR) (\<lambda>e.
        ebind (response_error_factory e) (\<lambda>errors. Inr (None, errors)))
      else if \<not> hasElement (asElement msg) SECURITY_DATA then Inl NotFoundException
      else
        ebind (getElement (asElement msg) SECURITY_DATA) (\<lambda>security_data.
        ebind (getElement security_data SECURITY) (\<lambda>security_element.
        (let security = py_str (getValue security_element)
         in if hasElement security_data SECURITY_ERROR then
              ebind (getElement security_data SECURITY_ERROR) (\<lambda>e.
              ebind (security_error_factory e) (\<lambda>security_errors.
                Inr (Some security,
                     [(SStr ''security_errors'', PDict security_errors),
                      (SStr ''security_data'', PDict []),
                      (SStr ''field_exceptions'', PDict [])])))
            else
              ebind (if hasElement security_data FIELD_EXCEPTIONS
                     then ebind (getElement security_data FIELD_EXCEPTIONS) field_exception_factory
                     else Inr []) (\<lambda>field_exceptions.
              ebind (getElement security_data FIELD_DATA) (\<lambda>field_data.
              ebind (greater_than (get_iterator_len field_data) 0) (\<lambda>has_fields.
              ebind (if has_fields
                     then ebind (iterate (get_bbg_iterator field_data)) (\<lambda>items.
                            historical_loop items [])
                     else Inr []) (\<lambda>security_data_results.
                Inr (Some security,
                     [(SStr ''security_data'', PDict security_data_results),
                      (SStr ''security_errors'', PDict []),
                      (SStr ''field_exceptions'', PDict field_exceptions)])))))))))"

section \<open>Response accumulator\<close>

text \<open>
  \<open>process_session\<close> keeps the accumulated \<open>output\<close> (the field \<open>acc_output\<close>) and, for every key (a security, or
  \<open>None\<close> for a flat result), the list \<open>security_responses[key]\<close> of the message-type tags
  seen for it.
\<close>

datatype RequestType = HISTORICAL_DATA | REFERENCE_DATA | INTRADAY_BAR_DATA

datatype EventType =
    ADMIN | SESSION_STATUS | SUBSCRIPTION_STATUS | REQUEST_STATUS | RESPONSE
  | PARTIAL_RESPONSE | SUBSCRIPTION_DATA | SERVICE_STATUS | TIMEOUT
  | AUTHORIZATION_STATUS | RESOLUTION_STATUS | TOPIC_STATUS | TOKEN_STATUS | REQUEST
  | UNKNOWN

record event =
  messages :: "message list"
  eventType :: EventType

record accumulator =
  acc_output :: dict
  security_responses :: "(string option \<times> string list) list"

definition initial :: accumulator where
  "initial = \<lparr>acc_output = [], security_responses = []\<rparr>"

fun msg_processes :: "RequestType \<Rightarrow> message \<Rightarrow> error + string option \<times> dict" where
  "msg_processes HISTORICAL_DATA = process_historical_data_msg"
| "msg_processes REFERENCE_DATA = process_ref_data_msg"
| "msg_processes INTRADAY_BAR_DATA = process_intraday_data_msg"

definition record_response ::
  "(string option \<times> string list) list \<Rightarrow> string option \<Rightarrow> string \<Rightarrow> (string option \<times> string list) list" where
  "record_response responses security response_type =
     (case map_of responses security of
        None \<Rightarrow> AList.update security [response_type] responses
      | Some seen \<Rightarrow> AList.update security (seen @ [response_type]) responses)"

definition get_response_count ::
  "string option \<Rightarrow> (string option \<times> string list) list \<Rightarrow> string \<Rightarrow> error + nat" where
  "get_response_count security responses request_type =
     (case map_of responses security of
        None \<Rightarrow> Inl KeyError
      | Some seen \<Rightarrow> Inr (count_list seen request_type))"

text \<open>\<open>_merge_two_dicts\<close>: \<open>z = x.copy(); z.update(y)\<close>.\<close>

definition merge_two_dicts :: "dict \<Rightarrow> dict \<Rightarrow> dict" where
  "merge_two_dicts x y = fold (\<lambda>(k, v) z. dict_set z k v) y x"

definition as_dict :: "pyval \<Rightarrow> error + dict" where
  "as_dict v = (case v of PDict d \<Rightarrow> Inr d | _ \<Rightarrow> Inl AttributeError)"

definition is_true :: "string option \<Rightarrow> bool" where
  "is_true security = (case security of None \<Rightarrow> False | Some s \<Rightarrow> s \<noteq> [])"

definition security_key :: "string option \<Rightarrow> scalar" where
  "security_key security = (case security of None \<Rightarrow> SNone | Some s \<Rightarrow> SStr s)"

text \<open>The body of the loop for one decoded message.\<close>

definition accumulate :: "accumulator \<Rightarrow> string option \<Rightarrow> dict \<Rightarrow> string \<Rightarrow> error + accumulator" where
  "accumulate st security sec_results response_type =
     (let responses = record_response (security_responses st) security response_type
      in ebind (get_response_count security responses response_type) (\<lambda>msg_response_count.
           if is_true security then
             (if 1 < msg_response_count then
                ebind (dict_getitem (acc_output st) (security_key security)) (\<lambda>old.
                ebind (as_dict old) (\<lambda>x.
                  Inr \<lparr>acc_output = dict_set (acc_output st) (security_key security)
                                  (PDict (merge_two_dicts x sec_results)),
                       security_responses = responses\<rparr>))
              else
                Inr \<lparr>acc_output = dict_set (acc_output st) (security_key security) (PDict sec_results),
                     security_responses = responses\<rparr>)
           else
             (if 1 < msg_response_count then
                Inr \<lparr>acc_output = merge_two_dicts (acc_output st) sec_results,
                     security_responses = responses\<rparr>
              else
                Inr \<lparr>acc_output = sec_results, security_responses = responses\<rparr>)))"

definition process_msg :: "nat \<Rightarrow> RequestType \<Rightarrow> accumulator \<Rightarrow> message \<Rightarrow> error + accumulator" where
  "process_msg cid request_type st msg =
     (if cid \<in> set (correlationIds msg) then
        ebind (msg_processes request_type msg) (\<lambda>(security, sec_results).
          accumulate st security sec_results (messageType msg))
      else Inr st)"

fun process_msgs :: "nat \<Rightarrow> RequestType \<Rightarrow> accumulator \<Rightarrow> message list \<Rightarrow> error + accumulator" where
  "process_msgs cid request_type st [] = Inr st"
| "process_msgs cid request_type st (msg # rest) =
     ebind (process_msg cid request_type st msg) (\<lambda>st. process_msgs cid request_type st rest)"

text \<open>
  The \<open>while True\<close> loop reads the events the session delivers, given here as the list of
  those that arrive.  It returns after the first \<open>RESPONSE\<close> event; when the list holds
  none the loop is still waiting, which is the value \<open>None\<close>.
\<close>

fun receive :: "nat \<Rightarrow> RequestType \<Rightarrow> accumulator \<Rightarrow> event list \<Rightarrow> (error + dict) option" where
  "receive cid request_type st [] = None"
| "receive cid request_type st (ev # rest) =
     (case process_msgs cid request_type st (messages ev) of
        Inl e \<Rightarrow> Some (Inl e)
      | Inr st \<Rightarrow>
          if eventType ev = RESPONSE then Some (Inr (acc_output st))
          else receive cid request_type st rest)"

definition process_session :: "nat \<Rightarrow> RequestType \<Rightarrow> event list \<Rightarrow> (error + dict) option" where
  "process_session cid request_type events = receive cid request_type initial events"

section \<open>Session\<close>

text \<open>
  \<open>Session.__init__\<close>: \<open>self.host = self.DEFAULT_HOST or host\<close>,
  \<open>self.port = self.DEFAULT_PORT or port\<close>, then the two are handed to the session options.
\<close>

definition DEFAULT_HOST :: pyval where
  "DEFAULT_HOST = PStr ''localhost''"

definition DEFAULT_PORT :: pyval where
  "DEFAULT_PORT = PScalar (SInt 8194)"

record Session =
  host :: pyval
  port :: pyval
  server_host :: pyval
  server_port :: pyval

definition Session_init :: "pyval \<Rightarrow> pyval \<Rightarrow> Session" where
  "Session_init h p =
     (let self_host = py_or DEFAULT_HOST h;
          self_port = py_or DEFAULT_PORT p
      in \<lparr>host = self_host, port = self_port,
          server_host = self_host, server_port = self_port\<rparr>)"

section \<open>Requests\<close>

text \<open>
  What the provider does in one call of a request operation: whether the library's
  \<open>Session.start()\<close> succeeds, the exception (if any) that opening the service and
  creating the request raises, the correlation token or exception of \<open>sendRequest\<close>, and
  the events that then arrive.
\<close>

record provider =
  session_start :: bool
  create_request :: "error option"
  send_request :: "error + nat"
  arriving :: "event list"

text \<open>
  What a call leaves behind: its result (\<open>None\<close> while the receive loop is waiting), whether
  the session was started, how often \<open>session.stop()\<close> ran, and the request handed to
  \<open>sendRequest\<close> as the list of its \<open>set\<close>, \<open>append\<close> and \<open>setElement\<close> calls.
\<close>

record outcome =
  result :: "(error + dict) option"
  started :: bool
  stops :: nat
  sent :: "(string \<times> pyval) list option"

definition raised :: "error \<Rightarrow> bool \<Rightarrow> outcome" where
  "raised e was_started = \<lparr>result = Some (Inl e), started = was_started, stops = 0, sent = None\<rparr>"

definition Session_start :: "provider \<Rightarrow> error + Session" where
  "Session_start p =
     (let self = Session_init PNone PNone
      in if \<not> session_start p then Inl ConnectionFailed else Inr self)"

definition Request_create :: "provider \<Rightarrow> error + (string \<times> pyval) list" where
  "Request_create p = (case create_request p of Some e \<Rightarrow> Inl e | None \<Rightarrow> Inr [])"

text \<open>The second \<open>try\<close> block of every operation: \<open>finally: session.stop()\<close>.\<close>

definition collect :: "provider \<Rightarrow> nat \<Rightarrow> RequestType \<Rightarrow> (string \<times> pyval) list \<Rightarrow> outcome" where
  "collect p cid request_type request =
     (case process_session cid request_type (arriving p) of
        None \<Rightarrow> \<lparr>result = None, started = True, stops = 0, sent = Some request\<rparr>
      | Some r \<Rightarrow> \<lparr>result = Some r, started = True, stops = 1, sent = Some request\<rparr>)"

text \<open>
  The argument \<open>fields\<close> of the operations is written \<open>field_names\<close>; \<open>elements_of\<close> is
  what a \<open>for\<close> loop runs through.
\<close>

text \<open>\<open>assert c\<close>, where evaluating \<open>c\<close> may itself raise, and the tests the assertions use.\<close>

definition py_assert :: "error + bool \<Rightarrow> error + unit" where
  "py_assert c = ebind c (\<lambda>b. if b then Inr () else Inl AssertionError)"

fun is_list :: "pyval \<Rightarrow> bool" where
  "is_list (PList xs) = True"
| "is_list v = False"

fun is_int :: "pyval \<Rightarrow> bool" where
  "is_int (PScalar (SInt i)) = True"
| "is_int (PScalar (SBool b)) = True"
| "is_int v = False"

fun is_datetime :: "pyval \<Rightarrow> bool" where
  "is_datetime (PScalar (SDateTime y m d h mi s)) = True"
| "is_datetime v = False"

text \<open>\<open>isinstance(x)\<close>: the builtin takes two arguments, so the call raises.\<close>

definition isinstance_one_argument :: "pyval \<Rightarrow> error + bool" where
  "isinstance_one_argument x = Inl TypeError"

definition one_of :: "pyval \<Rightarrow> string list \<Rightarrow> bool" where
  "one_of v names = (v \<in> set (map PStr names))"

fun elements_of :: "pyval \<Rightarrow> error + pyval list" where
  "elements_of (PList xs) = Inr xs"
| "elements_of (PDict d) = Inr (map (\<lambda>(k, v). PScalar k) d)"
| "elements_of v = Inl TypeError"

text \<open>\<open>IntradayBarRequest.get\<close>.\<close>

definition IntradayBarRequest_validate ::
  "pyval \<Rightarrow> pyval \<Rightarrow> pyval \<Rightarrow> pyval \<Rightarrow> pyval \<Rightarrow> pyval \<Rightarrow> error + unit" where
  "IntradayBarRequest_validate ticker event_type interval start_date end_date max_data_points =
     ebind (py_assert (isinstance_one_argument ticker)) (\<lambda>_.
     ebind (py_assert (Inr (is_int interval))) (\<lambda>_.
     ebind (py_assert (Inr (one_of event_type
              [''TRADE'', ''BID'', ''ASK'', ''BEST_BID'', ''BEST_ASK'']))) (\<lambda>_.
     ebind (py_assert (Inr (is_datetime start_date))) (\<lambda>_.
     ebind (py_assert (Inr (is_datetime end_date))) (\<lambda>_.
     py_assert (Inr (is_int max_data_points)))))))"

definition IntradayBarRequest_get ::
  "provider \<Rightarrow> pyval \<Rightarrow> pyval \<Rightarrow> pyval \<Rightarrow> pyval \<Rightarrow> pyval \<Rightarrow> pyval \<Rightarrow> outcome" where
  "IntradayBarRequest_get p ticker event_type interval start_date end_date max_data_points =
     (case IntradayBarRequest_validate ticker event_type interval start_date end_date
             max_data_points of
        Inl e \<Rightarrow> raised e False
      | Inr _ \<Rightarrow>
          (case Session_start p of
             Inl e \<Rightarrow> raised e False
           | Inr session \<Rightarrow>
               (case ebind (Request_create p) (\<lambda>request.
                       (let request = request @
                              [(''security'', ticker), (''eventType'', event_type),
                               (''interval'', interval), (''startDateTime'', start_date),
                               (''endDateTime'', end_date), (''maxDataPoints'', max_data_points)]
                        in ebind (send_request p) (\<lambda>cid. Inr (cid, request)))) of
                  Inl e \<Rightarrow> raised e True
                | Inr (cid, request) \<Rightarrow> collect p cid INTRADAY_BAR_DATA request)))"

text \<open>\<open>HistoricalDataRequest.get\<close>.\<close>

definition HistoricalDataRequest_validate ::
  "pyval \<Rightarrow> pyval \<Rightarrow> pyval \<Rightarrow> pyval \<Rightarrow> pyval \<Rightarrow> pyval \<Rightarrow> pyval \<Rightarrow> pyval \<Rightarrow> error + unit" where
  "HistoricalDataRequest_validate tickers field_names start_date end_date periodicity max_data_points
       non_trading_day_fill_option non_trading_day_fill_method =
     ebind (py_assert (Inr (is_list tickers))) (\<lambda>_.
     ebind (py_assert (Inr (is_list field_names))) (\<lambda>_.
     ebind (py_assert (Inr (one_of periodicity
              [''DAILY'', ''WEEKLY'', ''MONTHLY'', ''QUARTERLY'', ''SEMI-ANNUAL'', ''YEARLY'']))) (\<lambda>_.
     ebind (py_assert (Inr (is_datetime start_date))) (\<lambda>_.
     ebind (py_assert (Inr (is_datetime end_date))) (\<lambda>_.
     ebind (py_assert (Inr (is_int max_data_points))) (\<lambda>_.
     ebind (py_assert (Inr (one_of non_trading_day_fill_option
              [''NON_TRADING_WEEKDAYS'', ''ALL_CALENDAR_DAYS'', ''ACTIVE_DAYS_ONLY'']))) (\<lambda>_.
     py_assert (Inr (one_of non_trading_day_fill_method
              [''PREVIOUS_VALUE'', ''NIL_VALUE''])))))))))"

definition HistoricalDataRequest_get ::
  "provider \<Rightarrow> pyval \<Rightarrow> pyval \<Rightarrow> pyval \<Rightarrow> pyval \<Rightarrow> pyval \<Rightarrow> pyval \<Rightarrow> pyval \<Rightarrow> pyval \<Rightarrow> outcome" where
  "HistoricalDataRequest_get p tickers field_names start_date end_date periodicity max_data_points
       non_trading_day_fill_option non_trading_day_fill_method =
     (case ebind (HistoricalDataRequest_validate tickers field_names start_date end_date periodicity
                    max_data_points non_trading_day_fill_option non_trading_day_fill_method) (\<lambda>_.
           ebind (strftime start_date ''%Y%m%d'') (\<lambda>start_date.
           ebind (strftime end_date ''%Y%m%d'') (\<lambda>end_date. Inr (start_date, end_date)))) of
        Inl e \<Rightarrow> raised e False
      | Inr (start_date, end_date) \<Rightarrow>
          (case Session_start p of
             Inl e \<Rightarrow> raised e False
           | Inr session \<Rightarrow>
               (case ebind (Request_create p) (\<lambda>request.
                     ebind (elements_of tickers) (\<lambda>ts.
                     ebind (elements_of field_names) (\<lambda>fs.
                       (let request = request
                              @ map (\<lambda>ticker. (''securities'', ticker)) ts
                              @ map (\<lambda>field. (''fields'', field)) fs
                              @ [(''periodicityAdjustment'', PStr ''ACTUAL''),
                                 (''periodicitySelection'', periodicity),
                                 (''startDate'', start_date), (''endDate'', end_date),
                                 (''maxDataPoints'', max_data_points),
                                 (''nonTradingDayFillOption'', non_trading_day_fill_option),
                                 (''nonTradingDayFillMethod'', non_trading_day_fill_method)]
                        in ebind (send_request p) (\<lambda>cid. Inr (cid, request)))))) of
                  Inl e \<Rightarrow> raised e True
                | Inr (cid, request) \<Rightarrow> collect p cid HISTORICAL_DATA request)))"

text \<open>\<open>ReferenceDataRequest.format_override\<close> and \<open>ReferenceDataRequest.get\<close>.\<close>

definition format_override :: "scalar \<Rightarrow> pyval \<Rightarrow> error + pyval" where
  "format_override field_id v =
     (if field_id = SStr ''CURVE_DATE'' then strftime v ''%Y%m%d'' else Inr PNone)"

fun set_overrides :: "(scalar \<times> pyval) list \<Rightarrow> error + (string \<times> pyval) list" where
  "set_overrides [] = Inr []"
| "set_overrides ((field_id, v) # rest) =
     ebind (format_override field_id v) (\<lambda>formatted.
     ebind (set_overrides rest) (\<lambda>more.
       Inr ((''fieldId'', PScalar field_id) # (''value'', formatted) # more)))"

definition ReferenceDataRequest_validate :: "pyval \<Rightarrow> pyval \<Rightarrow> pyval \<Rightarrow> error + unit" where
  "ReferenceDataRequest_validate tickers field_names overrides =
     ebind (py_assert (Inr (is_list tickers))) (\<lambda>_.
     ebind (py_assert (Inr (is_list field_names))) (\<lambda>_.
       if truthy overrides then py_assert (Inr (is_dict overrides)) else Inr ()))"

definition ReferenceDataRequest_get :: "provider \<Rightarrow> pyval \<Rightarrow> pyval \<Rightarrow> pyval \<Rightarrow> outcome" where
  "ReferenceDataRequest_get p tickers field_names overrides =
     (case ReferenceDataRequest_validate tickers field_names overrides of
        Inl e \<Rightarrow> raised e False
      | Inr _ \<Rightarrow>
          (case Session_start p of
             Inl e \<Rightarrow> raised e False
           | Inr session \<Rightarrow>
               (case ebind (Request_create p) (\<lambda>request.
                     ebind (elements_of tickers) (\<lambda>ts.
                     ebind (elements_of field_names) (\<lambda>fs.
                     ebind (if truthy overrides
                            then ebind (as_dict overrides) set_overrides
                            else Inr []) (\<lambda>override_elements.
                       (let request = request
                              @ map (\<lambda>ticker. (''securities'', ticker)) ts
                              @ map (\<lambda>field. (''fields'', field)) fs
                              @ override_elements
                        in ebind (send_request p) (\<lambda>cid. Inr (cid, request))))))) of
                  Inl e \<Rightarrow> raised e True
                | Inr (cid, request) \<Rightarrow> collect p cid REFERENCE_DATA request)))"

section \<open>Sample messages\<close>

text \<open>
  The nested result of the reference decoder for the decoded securities of a message, in
  the order of the collection, and messages of the shapes the provider sends: a response
  that carries only a response error, and a reference response with one entry per
  security (a price, no field exceptions).
\<close>

definition nested_results :: "(string \<times> dict) list \<Rightarrow> dict \<Rightarrow> dict" where
  "nested_results decoded results =
     fold (\<lambda>(security, per_security) results.
             dict_set results (SStr security) (PDict per_security))
       decoded results"

definition failed_response :: message where
  "failed_response =
     \<lparr>correlationIds = [1], messageType = ''ReferenceDataResponse'',
      asElement = Element ''ReferenceDataResponse'' CHOICE True False True SNone
        [Element ''responseError'' SEQUENCE True False True SNone
           [Element ''category'' STRING True False False (SStr ''BAD_ARGS'') [],
            Element ''message'' STRING True False False (SStr ''No securities specified'') []]]\<rparr>"

definition security_entry :: "string \<Rightarrow> element" where
  "security_entry nm =
     Element ''securityData'' SEQUENCE True False True SNone
       [Element ''security'' STRING True False False (SStr nm) [],
        Element ''fieldData'' SEQUENCE True False True SNone
          [Element ''PX_LAST'' FLOAT64 True False False (SFloat ''189.5'') []],
        Element ''fieldExceptions'' SEQUENCE True True False SNone []]"

definition reference_response :: "string list \<Rightarrow> message" where
  "reference_response names =
     \<lparr>correlationIds = [1], messageType = ''ReferenceDataResponse'',
      asElement = Element ''ReferenceDataResponse'' CHOICE True False True SNone
        [Element ''securityData'' SEQUENCE True True False SNone (map security_entry names)]\<rparr>"

definition priced :: dict where
  "priced =
     [(SStr ''security_data'', PDict [(SStr ''PX_LAST'', PScalar (SFloat ''189.5''))]),
      (SStr ''field_exceptions'', PDict []),
      (SStr ''security_errors'', PDict [])]"

text \<open>
  Field-data trees: a bulk field with two records of the same name, a record with two
  scalars of the same name, and a record whose first child already bears the name that a
  repeated \<open>DVD_HIST\<close> is given.
\<close>

definition dividend :: element where
  "dividend =
     Element ''DVD_HIST'' SEQUENCE True False True SNone
       [Element ''Amount'' FLOAT64 True False False (SFloat ''0.5'') []]"

definition two_dividends :: element where
  "two_dividends = Element ''fieldData'' SEQUENCE True False True SNone [dividend, dividend]"

definition two_names :: element where
  "two_names =
     Element ''fieldData'' SEQUENCE True False True SNone
       [Element ''NAME'' STRING True False False (SStr ''first'') [],
        Element ''NAME'' STRING True False False (SStr ''second'') []]"

definition masked :: element where
  "masked =
     Element ''fieldData'' SEQUENCE True False True SNone
       [Element ''DVD_HIST_0'' SEQUENCE True False True SNone
          [Element ''Amount'' FLOAT64 True False False (SFloat ''0.1'') []],
        dividend, dividend]"

section \<open>Properties\<close>

subsection \<open>Dictionaries with string keys\<close>

lemma key_eq_plain: "plain k \<Longrightarrow> key_eq k' k = (k' = k)"
  by (cases k; cases k') (auto simp: key_eq_def split: option.splits)

lemma lookup_plain: "plain k \<Longrightarrow> lookup d k = map_of d k"
  by (induction d) (auto simp: key_eq_plain)

lemma store_plain: "plain k \<Longrightarrow> store k v d = AList.update k v d"
  by (induction d) (auto simp: key_eq_plain)

lemma dict_set_plain: "plain k \<Longrightarrow> dict_set d k v = AList.update k v d"
  by (simp add: dict_set_def store_plain)

lemma dict_contains_plain: "plain k \<Longrightarrow> dict_contains d k = (map_of d k \<noteq> None)"
  by (simp add: dict_contains_def lookup_plain)

lemma dict_getitem_plain:
  "plain k \<Longrightarrow>
     dict_getitem d k = (case map_of d k of None \<Rightarrow> Inl KeyError | Some v \<Rightarrow> Inr v)"
  by (simp add: dict_getitem_def lookup_plain)

text \<open>
  C10.  Whatever host and port the caller passes, the session is configured for
  \<open>localhost\<close> and \<open>8194\<close>: each class default is the left operand of \<open>or\<close> and is truthy.
\<close>

theorem Session_init_ignores_arguments:
  "host (Session_init h p) = PStr ''localhost''
   \<and> port (Session_init h p) = PScalar (SInt 8194)
   \<and> server_host (Session_init h p) = PStr ''localhost''
   \<and> server_port (Session_init h p) = PScalar (SInt 8194)"
  by (simp add: Session_init_def DEFAULT_HOST_def DEFAULT_PORT_def py_or_def Let_def)

subsection \<open>Request operations\<close>

text \<open>
  C8.  \<open>IntradayBarRequest.get\<close> raises \<open>TypeError\<close> in its validation block for every
  argument tuple and every provider: the first assertion calls \<open>isinstance\<close> with one
  argument.  No session is started and no request is sent.
\<close>

theorem IntradayBarRequest_get_raises_TypeError:
  "IntradayBarRequest_get p ticker event_type interval start_date end_date max_data_points
     = \<lparr>result = Some (Inl TypeError), started = False, stops = 0, sent = None\<rparr>"
  by (simp add: IntradayBarRequest_get_def IntradayBarRequest_validate_def py_assert_def
      isinstance_one_argument_def ebind_def raised_def)

lemma digit_char_digit: "digit_char n \<in> digits"
proof -
  have "n mod 10 < length ''0123456789''" by simp
  then show ?thesis unfolding digit_char_def digits_def by (rule nth_mem)
qed

lemma str_nat_four_digits:
  assumes "1000 \<le> y" and "y \<le> 9999"
  shows "str_nat y = pad4 y"
proof -
  have "1000 div 10 \<le> y div 10" and "1000 div 100 \<le> y div 100"
    using assms(1) by (rule div_le_mono)+
  then have low: "\<not> y < 10" "\<not> y div 10 < 10" "\<not> y div 100 < 10"
    using assms(1) by simp_all
  have "y < 10 * 1000" using assms(2) by simp
  then have high: "y div 1000 < 10" by (rule less_mult_imp_div_less)
  have nested: "y div 10 div 10 = y div 100" "y div 100 div 10 = y div 1000"
    by (simp_all add: div_mult2_eq [symmetric])
  have a: "str_nat y = str_nat (y div 10) @ [digit_char y]"
    using low(1) by (subst str_nat.simps) simp
  have b: "str_nat (y div 10) = str_nat (y div 100) @ [digit_char (y div 10)]"
    using low(2) by (subst str_nat.simps) (simp add: nested)
  have c: "str_nat (y div 100) = str_nat (y div 1000) @ [digit_char (y div 100)]"
    using low(3) by (subst str_nat.simps) (simp add: nested)
  have d: "str_nat (y div 1000) = [digit_char (y div 1000)]"
    using high by (subst str_nat.simps) simp
  show ?thesis unfolding a b c d pad4_def by simp
qed

lemma format_override_date:
  "format_override (SStr ''CURVE_DATE'') (PScalar (SDate y m d))
     = Inr (PStr (str_nat y @ pad2 m @ pad2 d))"
  "format_override (SStr ''CURVE_DATE'') (PScalar (SDateTime y m d h mi s))
     = Inr (PStr (str_nat y @ pad2 m @ pad2 d))"
  by (simp_all add: format_override_def strftime_def directive_def)

lemma set_overrides_succeeds:
  "\<forall>(f, x) \<in> set overrides. f = SStr ''CURVE_DATE'' \<longrightarrow> has_strftime x \<Longrightarrow>
     \<exists>elements. set_overrides overrides = Inr elements"
proof (induction overrides)
  case Nil
  then show ?case by simp
next
  case (Cons a overrides)
  obtain f x where a: "a = (f, x)" by (cases a)
  from Cons obtain more where more: "set_overrides overrides = Inr more" by auto
  have "\<exists>formatted. format_override f x = Inr formatted"
    using Cons.prems a
    by (auto simp: format_override_def has_strftime_def strftime_def
        split: pyval.splits option.splits)
  then show ?case using a more by (auto simp: ebind_def)
qed

lemma set_overrides_None:
  "set_overrides overrides = Inr elements \<Longrightarrow> (f, x) \<in> set overrides \<Longrightarrow>
     f \<noteq> SStr ''CURVE_DATE'' \<Longrightarrow>
     \<exists>before after. elements = before @ [(''fieldId'', PScalar f), (''value'', PNone)] @ after"
proof (induction overrides arbitrary: elements)
  case Nil
  then show ?case by simp
next
  case (Cons a overrides)
  obtain g y where a: "a = (g, y)" by (cases a)
  from Cons.prems(1) a obtain formatted more where
    fo: "format_override g y = Inr formatted"
    and more: "set_overrides overrides = Inr more"
    and el: "elements = (''fieldId'', PScalar g) # (''value'', formatted) # more"
    by (auto simp: ebind_def split: sum.splits)
  show ?case
  proof (cases "(f, x) = (g, y)")
    case True
    then have "formatted = PNone"
      using fo Cons.prems(3) by (simp add: format_override_def)
    then have "elements = [] @ [(''fieldId'', PScalar f), (''value'', PNone)] @ more"
      using el True by simp
    then show ?thesis by blast
  next
    case False
    then have "(f, x) \<in> set overrides" using Cons.prems(2) a by auto
    from Cons.IH [OF more this Cons.prems(3)] obtain before after where
      "more = before @ [(''fieldId'', PScalar f), (''value'', PNone)] @ after"
      by blast
    then have "elements = ((''fieldId'', PScalar g) # (''value'', formatted) # before)
        @ [(''fieldId'', PScalar f), (''value'', PNone)] @ after"
      using el by simp
    then show ?thesis by blast
  qed
qed

lemma ebind_InrE:
  assumes "ebind m f = Inr r"
  obtains a where "m = Inr a" and "f a = Inr r"
  using assms by (cases m) (auto simp: ebind_def)

lemma sent_request:
  assumes "sent (ReferenceDataRequest_get p tickers field_names overrides) = Some request"
  shows "\<exists>ts fs elements.
      (if truthy overrides then ebind (as_dict overrides) set_overrides else Inr []) = Inr elements
      \<and> request = map (\<lambda>ticker. (''securities'', ticker)) ts
          @ map (\<lambda>field. (''fields'', field)) fs @ elements"
proof -
  let ?ov = "if truthy overrides then ebind (as_dict overrides) set_overrides else Inr []"
  let ?q = "ebind (Request_create p) (\<lambda>request.
                     ebind (elements_of tickers) (\<lambda>ts.
                     ebind (elements_of field_names) (\<lambda>fs.
                     ebind ?ov (\<lambda>override_elements.
                       (let request = request
                              @ map (\<lambda>ticker. (''securities'', ticker)) ts
                              @ map (\<lambda>field. (''fields'', field)) fs
                              @ override_elements
                        in ebind (send_request p) (\<lambda>cid. Inr (cid, request)))))))"
  have "\<exists>cid. ?q = Inr (cid, request)"
    using assms unfolding ReferenceDataRequest_get_def
    by (auto simp: raised_def collect_def split: sum.splits option.splits)
  then obtain cid where q: "?q = Inr (cid, request)" ..
  from q obtain r0 where r0: "Request_create p = Inr r0"
    and q1: "ebind (elements_of tickers) (\<lambda>ts.
                     ebind (elements_of field_names) (\<lambda>fs.
                     ebind ?ov (\<lambda>override_elements.
                       (let request = r0
                              @ map (\<lambda>ticker. (''securities'', ticker)) ts
                              @ map (\<lambda>field. (''fields'', field)) fs
                              @ override_elements
                        in ebind (send_request p) (\<lambda>cid. Inr (cid, request)))))) = Inr (cid, request)"
    by (rule ebind_InrE)
  from q1 obtain ts where
    q2: "ebind (elements_of field_names) (\<lambda>fs.
                     ebind ?ov (\<lambda>override_elements.
                       (let request = r0
                              @ map (\<lambda>ticker. (''securities'', ticker)) ts
                              @ map (\<lambda>field. (''fields'', field)) fs
                              @ override_elements
                        in ebind (send_request p) (\<lambda>cid. Inr (cid, request))))) = Inr (cid, request)"
    by (rule ebind_InrE)
  from q2 obtain fs where
    q3: "ebind ?ov (\<lambda>override_elements.
                       (let request = r0
                              @ map (\<lambda>ticker. (''securities'', ticker)) ts
                              @ map (\<lambda>field. (''fields'', field)) fs
                              @ override_elements
                        in ebind (send_request p) (\<lambda>cid. Inr (cid, request)))) = Inr (cid, request)"
    by (rule ebind_InrE)
  from q3 obtain els where ov: "?ov = Inr els"
    and q4: "ebind (send_request p) (\<lambda>c. Inr (c, r0
                              @ map (\<lambda>ticker. (''securities'', ticker)) ts
                              @ map (\<lambda>field. (''fields'', field)) fs
                              @ els)) = Inr (cid, request)"
    by (rule ebind_InrE) (simp add: Let_def)
  from q4 have "request = r0 @ map (\<lambda>ticker. (''securities'', ticker)) ts
                              @ map (\<lambda>field. (''fields'', field)) fs @ els"
    by (rule ebind_InrE) simp
  moreover have "r0 = []"
    using r0 by (simp add: Request_create_def split: option.splits)
  ultimately show ?thesis using ov by auto
qed

lemma request_is_sent:
  assumes "session_start p" and "create_request p = None" and "send_request p = Inr cid"
    and "set_overrides overrides = Inr elements"
  shows "sent (ReferenceDataRequest_get p (PList ts) (PList fs) (PDict overrides))
     = Some (map (\<lambda>ticker. (''securities'', ticker)) ts
          @ map (\<lambda>field. (''fields'', field)) fs @ elements)"
proof (cases overrides)
  case Nil
  then show ?thesis
    using assms
    by (simp add: ReferenceDataRequest_get_def ReferenceDataRequest_validate_def py_assert_def
        ebind_def Session_start_def Request_create_def collect_def Let_def
        split: option.splits)
next
  case (Cons a rest)
  then show ?thesis
    using assms
    by (simp add: ReferenceDataRequest_get_def ReferenceDataRequest_validate_def py_assert_def
        ebind_def Session_start_def Request_create_def collect_def Let_def as_dict_def
        split: option.splits)
qed

text \<open>
  C9, as the claim states it, fails for \<open>CURVE_DATE\<close>: the year 999 is printed with three
  digits, so the value is not of the form \<open>YYYYMMDD\<close>; and a value that is not a date, such
  as a string, has no \<open>strftime\<close>, so nothing is returned.
\<close>

theorem format_override_not_YYYYMMDD:
  "format_override (SStr ''CURVE_DATE'') (PScalar (SDate 999 1 2)) = Inr (PStr ''9990102'')
   \<and> format_override (SStr ''CURVE_DATE'') (PStr ''20230101'') = Inl AttributeError"
proof -
  have "str_nat 999 = ''999''"
    by (simp add: str_nat.simps [of 999] str_nat.simps [of 99] str_nat.simps [of 9]
        digit_char_def)
  moreover have "format_override (SStr ''CURVE_DATE'') (PStr ''20230101'') = Inl AttributeError"
    by (simp add: format_override_def strftime_def)
  ultimately show ?thesis
    by (simp add: format_override_date pad2_def digit_char_def)
qed

text \<open>
  C9, amended.  \<open>format_override\<close> returns \<open>None\<close> for every field id other than
  \<open>CURVE_DATE\<close>, whatever the value; so in the request that \<open>ReferenceDataRequest.get\<close>
  hands to \<open>sendRequest\<close> every override with another field id is the element \<open>fieldId\<close>
  followed by the element \<open>value\<close> set to \<open>None\<close>, and the request with these elements is
  sent whenever the session starts, the request is created and sent, and every
  \<open>CURVE_DATE\<close> value is a date.  For \<open>CURVE_DATE\<close> and a date or datetime of a year from
  1000 on, \<open>format_override\<close> returns the eight digits \<open>YYYYMMDD\<close>.
\<close>

theorem overrides_sent_as_None:
  "(field_id \<noteq> SStr ''CURVE_DATE'' \<longrightarrow> format_override field_id v = Inr PNone)
   \<and> (sent (ReferenceDataRequest_get p tickers field_names (PDict overrides)) = Some request
        \<and> (f, x) \<in> set overrides \<and> f \<noteq> SStr ''CURVE_DATE'' \<longrightarrow>
      (\<exists>before after.
          request = before @ [(''fieldId'', PScalar f), (''value'', PNone)] @ after))
   \<and> (session_start p \<and> create_request p = None \<and> send_request p = Inr cid
        \<and> (\<forall>(f, x) \<in> set overrides. f = SStr ''CURVE_DATE'' \<longrightarrow> has_strftime x) \<longrightarrow>
      (\<exists>elements. set_overrides overrides = Inr elements
          \<and> sent (ReferenceDataRequest_get p (PList ts) (PList fs) (PDict overrides))
              = Some (map (\<lambda>ticker. (''securities'', ticker)) ts
                   @ map (\<lambda>field. (''fields'', field)) fs @ elements)))
   \<and> (1000 \<le> y \<and> y \<le> 9999 \<longrightarrow>
        format_override (SStr ''CURVE_DATE'') (PScalar (SDate y m d))
          = Inr (PStr (pad4 y @ pad2 m @ pad2 d))
      \<and> format_override (SStr ''CURVE_DATE'') (PScalar (SDateTime y m d h mi s))
          = Inr (PStr (pad4 y @ pad2 m @ pad2 d))
      \<and> length (pad4 y @ pad2 m @ pad2 d) = 8
      \<and> set (pad4 y @ pad2 m @ pad2 d) \<subseteq> digits)"
proof (intro conjI impI)
  assume "field_id \<noteq> SStr ''CURVE_DATE''"
  then show "format_override field_id v = Inr PNone"
    by (simp add: format_override_def)
next
  assume a: "sent (ReferenceDataRequest_get p tickers field_names (PDict overrides)) = Some request
        \<and> (f, x) \<in> set overrides \<and> f \<noteq> SStr ''CURVE_DATE''"
  then have ne: "overrides \<noteq> []" by auto
  from a sent_request [of p tickers field_names "PDict overrides" request]
  obtain ts' fs' elements where
    el: "set_overrides overrides = Inr elements"
    and req: "request = map (\<lambda>ticker. (''securities'', ticker)) ts'
          @ map (\<lambda>field. (''fields'', field)) fs' @ elements"
    using ne by (auto simp: as_dict_def ebind_def)
  from set_overrides_None [OF el] a obtain before after where
    "elements = before @ [(''fieldId'', PScalar f), (''value'', PNone)] @ after"
    by blast
  then have "request = (map (\<lambda>ticker. (''securities'', ticker)) ts'
          @ map (\<lambda>field. (''fields'', field)) fs' @ before)
        @ [(''fieldId'', PScalar f), (''value'', PNone)] @ after"
    using req by simp
  then show "\<exists>before after.
      request = before @ [(''fieldId'', PScalar f), (''value'', PNone)] @ after"
    by blast
next
  assume a: "session_start p \<and> create_request p = None \<and> send_request p = Inr cid
        \<and> (\<forall>(f, x) \<in> set overrides. f = SStr ''CURVE_DATE'' \<longrightarrow> has_strftime x)"
  then obtain elements where el: "set_overrides overrides = Inr elements"
    using set_overrides_succeeds [of overrides] by blast
  then show "\<exists>elements. set_overrides overrides = Inr elements
          \<and> sent (ReferenceDataRequest_get p (PList ts) (PList fs) (PDict overrides))
              = Some (map (\<lambda>ticker. (''securities'', ticker)) ts
                   @ map (\<lambda>field. (''fields'', field)) fs @ elements)"
    using a request_is_sent [of p cid overrides elements ts fs] by blast
next
  assume "1000 \<le> y \<and> y \<le> 9999"
  then show "format_override (SStr ''CURVE_DATE'') (PScalar (SDate y m d))
          = Inr (PStr (pad4 y @ pad2 m @ pad2 d))"
    by (simp add: format_override_date str_nat_four_digits)
next
  assume "1000 \<le> y \<and> y \<le> 9999"
  then show "format_override (SStr ''CURVE_DATE'') (PScalar (SDateTime y m d h mi s))
          = Inr (PStr (pad4 y @ pad2 m @ pad2 d))"
    by (simp add: format_override_date str_nat_four_digits)
next
  show "length (pad4 y @ pad2 m @ pad2 d) = 8"
    by (simp add: pad4_def pad2_def)
next
  show "set (pad4 y @ pad2 m @ pad2 d) \<subseteq> digits"
    by (simp add: pad4_def pad2_def digit_char_digit)
qed

theorem overrides_sent_as_None_witness:
  "sent (ReferenceDataRequest_get
          \<lparr>session_start = True, create_request = None, send_request = Inr 1, arriving = []\<rparr>
          (PList [PStr ''YCGT0025 Index'']) (PList [PStr ''CURVE_TENOR_RATES''])
          (PDict [(SStr ''CURVE_DATE'', PScalar (SDateTime 2023 1 1 0 0 0)),
                  (SStr ''SETTLE_DT'', PStr ''20230105'')]))
     = Some [(''securities'', PStr ''YCGT0025 Index''), (''fields'', PStr ''CURVE_TENOR_RATES''),
             (''fieldId'', PStr ''CURVE_DATE''), (''value'', PStr ''20230101''),
             (''fieldId'', PStr ''SETTLE_DT''), (''value'', PNone)]
   \<and> format_override (SStr ''SETTLE_DT'') (PStr ''20230105'') = Inr PNone
   \<and> format_override (SStr ''CURVE_DATE'') (PScalar (SDateTime 2023 1 1 0 0 0))
       = Inr (PStr ''20230101'')"
proof -
  let ?p = "\<lparr>session_start = True, create_request = None, send_request = Inr 1,
             arriving = []\<rparr>"
  let ?overrides = "[(SStr ''CURVE_DATE'', PScalar (SDateTime 2023 1 1 0 0 0)),
                     (SStr ''SETTLE_DT'', PStr ''20230105'')]"
  note facts = overrides_sent_as_None
      [where field_id = "SStr ''SETTLE_DT''" and v = "PStr ''20230105''"
         and p = ?p and cid = 1 and overrides = ?overrides
         and ts = "[PStr ''YCGT0025 Index'']" and fs = "[PStr ''CURVE_TENOR_RATES'']"
         and y = 2023 and m = 1 and d = 1 and h = 0 and mi = 0 and s = 0]
  have none: "format_override (SStr ''SETTLE_DT'') (PStr ''20230105'') = Inr PNone"
    using facts [THEN conjunct1] by simp
  have date: "format_override (SStr ''CURVE_DATE'') (PScalar (SDateTime 2023 1 1 0 0 0))
      = Inr (PStr ''20230101'')"
    using facts [THEN conjunct2, THEN conjunct2, THEN conjunct2]
    by (simp add: pad4_def pad2_def digit_char_def)
  have "session_start ?p \<and> create_request ?p = None \<and> send_request ?p = Inr 1
      \<and> (\<forall>(f, x) \<in> set ?overrides. f = SStr ''CURVE_DATE'' \<longrightarrow> has_strftime x)"
    by (simp add: has_strftime_def)
  with facts [THEN conjunct2, THEN conjunct2, THEN conjunct1] obtain elements where
    el: "set_overrides ?overrides = Inr elements"
    and sent: "sent (ReferenceDataRequest_get ?p (PList [PStr ''YCGT0025 Index''])
          (PList [PStr ''CURVE_TENOR_RATES'']) (PDict ?overrides))
        = Some (map (\<lambda>ticker. (''securities'', ticker)) [PStr ''YCGT0025 Index'']
             @ map (\<lambda>field. (''fields'', field)) [PStr ''CURVE_TENOR_RATES''] @ elements)"
    by blast
  have "elements = [(''fieldId'', PStr ''CURVE_DATE''), (''value'', PStr ''20230101''),
             (''fieldId'', PStr ''SETTLE_DT''), (''value'', PNone)]"
    using el none date by (simp add: ebind_def)
  then show ?thesis using sent none date by simp
qed

lemma collect_stops_once:
  "process_session cid request_type (arriving p) = Some r \<Longrightarrow>
     stops (collect p cid request_type request) = 1"
  by (simp add: collect_def)

text \<open>
  C7.  The \<open>finally: session.stop()\<close> guards the receive loop only.  An exception raised
  between \<open>Session().start()\<close> and the end of the first \<open>try\<close> block leaves the operation
  with the session started and never stopped: here the service is not found when the
  historical request is created, and a \<open>CURVE_DATE\<close> override of the reference request
  is a string, which has no \<open>strftime\<close>.
\<close>

theorem session_left_running_when_dispatch_fails:
  "HistoricalDataRequest_get
      \<lparr>session_start = True, create_request = Some NotFoundException,
       send_request = Inr 1, arriving = []\<rparr>
      (PList [PStr ''IBM US Equity'']) (PList [PStr ''PX_LAST''])
      (PScalar (SDateTime 2023 1 2 0 0 0)) (PScalar (SDateTime 2023 1 31 0 0 0))
      (PStr ''DAILY'') (PScalar (SInt 2500)) (PStr ''ACTIVE_DAYS_ONLY'') (PStr ''NIL_VALUE'')
     = \<lparr>result = Some (Inl NotFoundException), started = True, stops = 0, sent = None\<rparr>
   \<and> ReferenceDataRequest_get
      \<lparr>session_start = True, create_request = None, send_request = Inr 1, arriving = []\<rparr>
      (PList [PStr ''IBM US Equity'']) (PList [PStr ''PX_LAST''])
      (PDict [(SStr ''CURVE_DATE'', PStr ''20230101'')])
     = \<lparr>result = Some (Inl AttributeError), started = True, stops = 0, sent = None\<rparr>"
  by (simp add: HistoricalDataRequest_get_def HistoricalDataRequest_validate_def
      ReferenceDataRequest_get_def ReferenceDataRequest_validate_def py_assert_def one_of_def
      ebind_def strftime_def Session_start_def Request_create_def raised_def Let_def
      as_dict_def format_override_def)

subsection \<open>Scalar type decoder\<close>

text \<open>
  C6.  For a correlation id and for an enumeration the handler returns the class
  \<open>NotImplementedError\<close> as an ordinary value; it signals nothing.  \<open>_field_factory\<close> then
  subscripts that class, so what the caller sees is a \<open>TypeError\<close>.
\<close>

theorem unsupported_kinds_return_the_class:
  "process_correlation_id data = Inr (PScalar (SClass ''NotImplementedError''))
   \<and> process_enumeration data = Inr (PScalar (SClass ''NotImplementedError''))
   \<and> (el_datatype data = CORRELATION_ID \<or> el_datatype data = ENUMERATION
        \<longrightarrow> field_factory data = Inl TypeError)"
  by (auto simp: process_correlation_id_def process_enumeration_def field_factory_def ebind_def)

theorem unsupported_kinds_return_the_class_witness:
  "field_factory (Element ''cid'' CORRELATION_ID True False False (SInt 7) []) = Inl TypeError
   \<and> field_factory (Element ''side'' ENUMERATION True False False (SStr ''BUY'') []) = Inl TypeError"
  using unsupported_kinds_return_the_class [of "Element ''cid'' CORRELATION_ID True False False (SInt 7) []"]
    unsupported_kinds_return_the_class [of "Element ''side'' ENUMERATION True False False (SStr ''BUY'') []"]
  by simp

subsection \<open>Structural flattener\<close>

lemma flatten_size: "size (flatten_dict v) \<le> size v"
  by (induction v rule: flatten_dict.induct) auto

lemma flatten_fixed:
  "\<not> (is_dict v \<and> py_len v = 1) \<Longrightarrow> v \<noteq> PDict [] \<Longrightarrow> flatten_dict v = v"
  by (cases v rule: flatten_dict.cases) auto

lemma flatten_not_empty: "flatten_dict v \<noteq> PDict []"
  by (induction v rule: flatten_dict.induct) auto

lemma flatten_shrinks: "is_dict v \<and> py_len v = 1 \<Longrightarrow> size (flatten_dict v) < size v"
proof (cases v rule: flatten_dict.cases)
  case (4 k w)
  have "size (flatten_dict w) \<le> size w" by (rule flatten_size)
  moreover have "size w < size v" using 4 by simp
  ultimately show ?thesis using 4 by simp
qed auto

lemma flatten_moves: "is_dict v \<and> py_len v = 1 \<Longrightarrow> flatten_dict v \<noteq> v"
  using flatten_shrinks [of v] by auto

text \<open>
  C5, as the claim states it, fails: flattening strips one single-key wrapper per call
  when the wrappers are three deep.
\<close>

theorem flatten_dict_not_idempotent:
  "flatten_dict (flatten_dict
      (PDict [(SStr ''a'', PDict [(SStr ''b'', PDict [(SStr ''c'', PScalar (SInt 1))])])]))
     \<noteq> flatten_dict
      (PDict [(SStr ''a'', PDict [(SStr ''b'', PDict [(SStr ''c'', PScalar (SInt 1))])])])"
  by simp

text \<open>
  C5, amended.  \<open>flatten(flatten(x))\<close> equals \<open>flatten(x)\<close> exactly when \<open>flatten(x)\<close> is not a
  one-key mapping.  Flattening returns a non-mapping and a mapping of more than one key
  unchanged, and for a one-key mapping returns the value when that is a one-key mapping
  and the flattened value otherwise.
\<close>

theorem flatten_dict_idempotent_iff:
  "((flatten_dict (flatten_dict x) = flatten_dict x)
      = (\<not> (is_dict (flatten_dict x) \<and> py_len (flatten_dict x) = 1)))
   \<and> (\<not> is_dict x \<longrightarrow> flatten_dict x = x)
   \<and> (is_dict x \<and> 1 < py_len x \<longrightarrow> flatten_dict x = x)
   \<and> flatten_dict (PDict [(k, v)])
       = (if is_dict v \<and> py_len v = 1 then v else flatten_dict v)"
proof (intro conjI)
  show "(flatten_dict (flatten_dict x) = flatten_dict x)
      = (\<not> (is_dict (flatten_dict x) \<and> py_len (flatten_dict x) = 1))"
    using flatten_fixed [of "flatten_dict x"] flatten_not_empty [of x]
      flatten_moves [of "flatten_dict x"]
    by blast
  show "\<not> is_dict x \<longrightarrow> flatten_dict x = x"
    by (cases x rule: flatten_dict.cases) auto
  show "is_dict x \<and> 1 < py_len x \<longrightarrow> flatten_dict x = x"
    by (cases x rule: flatten_dict.cases) auto
  show "flatten_dict (PDict [(k, v)])
       = (if is_dict v \<and> py_len v = 1 then v else flatten_dict v)"
    by simp
qed

theorem flatten_dict_idempotent_iff_witness:
  "flatten_dict (flatten_dict
      (PDict [(SStr ''fieldData'',
          PDict [(SStr ''PX_LAST'', PScalar (SFloat ''1.5'')), (SStr ''NAME'', PStr ''IBM'')])]))
     = flatten_dict
      (PDict [(SStr ''fieldData'',
          PDict [(SStr ''PX_LAST'', PScalar (SFloat ''1.5'')), (SStr ''NAME'', PStr ''IBM'')])])"
  using flatten_dict_idempotent_iff
    [of "PDict [(SStr ''fieldData'',
          PDict [(SStr ''PX_LAST'', PScalar (SFloat ''1.5'')), (SStr ''NAME'', PStr ''IBM'')])]"]
  by simp

subsection \<open>Message decoders\<close>

lemma hasElement_getElement:
  "hasElement e n \<Longrightarrow> \<exists>c. getElement e n = Inr c"
  by (auto simp: hasElement_def getElement_def)

lemma response_error_factory_iterable:
  "isArray e \<or> isComplexType e \<Longrightarrow>
     response_error_factory e
       = Inr (fold (\<lambda>response_error response_errors.
                      dict_set response_errors (SStr (el_name response_error))
                        (PScalar (getValue response_error))) (children e) [])"
  by (auto simp: response_error_factory_def get_bbg_iterator_def iterate_def ebind_def)

text \<open>
  C2.  A message with a top-level response error makes each of the three decoders return
  \<open>None\<close> with the decoded response-error mapping and nothing else: the result is that of
  \<open>_response_error_factory\<close> alone, whatever else the message holds, and for a response
  error that is an array or a complex record it is the mapping from each child's name to
  its value.
\<close>

theorem response_error_short_circuits:
  assumes "hasElement (asElement msg) RESPONSE_ERROR"
  shows "\<exists>e. getElement (asElement msg) RESPONSE_ERROR = Inr e
     \<and> process_historical_data_msg msg
         = ebind (response_error_factory e) (\<lambda>errors. Inr (None, errors))
     \<and> process_ref_data_msg msg
         = ebind (response_error_factory e) (\<lambda>errors. Inr (None, errors))
     \<and> process_intraday_data_msg msg
         = ebind (response_error_factory e) (\<lambda>errors. Inr (None, errors))
     \<and> (isArray e \<or> isComplexType e \<longrightarrow>
          response_error_factory e
            = Inr (fold (\<lambda>response_error response_errors.
                      dict_set response_errors (SStr (el_name response_error))
                        (PScalar (getValue response_error))) (children e) []))"
proof -
  from assms obtain e where e: "getElement (asElement msg) RESPONSE_ERROR = Inr e"
    using hasElement_getElement by blast
  have "process_historical_data_msg msg
         = ebind (response_error_factory e) (\<lambda>errors. Inr (None, errors))"
    using assms e by (simp add: process_historical_data_msg_def ebind_def)
  moreover have "process_ref_data_msg msg
         = ebind (response_error_factory e) (\<lambda>errors. Inr (None, errors))"
    using assms e by (simp add: process_ref_data_msg_def ebind_def)
  moreover have "process_intraday_data_msg msg
         = ebind (response_error_factory e) (\<lambda>errors. Inr (None, errors))"
    using assms e by (simp add: process_intraday_data_msg_def ebind_def)
  ultimately show ?thesis
    using e response_error_factory_iterable [of e] by blast
qed

theorem response_error_short_circuits_witness:
  "hasElement (asElement failed_response) RESPONSE_ERROR
   \<and> process_historical_data_msg failed_response
       = Inr (None, [(SStr ''category'', PStr ''BAD_ARGS''),
                     (SStr ''message'', PStr ''No securities specified'')])
   \<and> process_ref_data_msg failed_response
       = Inr (None, [(SStr ''category'', PStr ''BAD_ARGS''),
                     (SStr ''message'', PStr ''No securities specified'')])
   \<and> process_intraday_data_msg failed_response
       = Inr (None, [(SStr ''category'', PStr ''BAD_ARGS''),
                     (SStr ''message'', PStr ''No securities specified'')])"
proof -
  have h: "hasElement (asElement failed_response) RESPONSE_ERROR"
    by (simp add: failed_response_def hasElement_def RESPONSE_ERROR_def)
  have g: "getElement (asElement failed_response) RESPONSE_ERROR
      = Inr (Element ''responseError'' SEQUENCE True False True SNone
           [Element ''category'' STRING True False False (SStr ''BAD_ARGS'') [],
            Element ''message'' STRING True False False (SStr ''No securities specified'') []])"
    by (simp add: failed_response_def getElement_def RESPONSE_ERROR_def)
  show ?thesis
    using h response_error_short_circuits [OF h] g
    by (auto simp: ebind_def dict_set_plain)
qed

lemma ref_loop_decoded:
  "map security_result its = map Inr decoded \<Longrightarrow>
     ref_loop (Some n) its (security, results)
       = Inr (if decoded = [] then (security, results)
              else (Some (fst (last decoded)),
                    if 1 < n then nested_results decoded results else snd (last decoded)))"
proof (induction its arbitrary: decoded security results)
  case Nil
  then show ?case by simp
next
  case (Cons item rest)
  then obtain d ds where d: "decoded = d # ds" "security_result item = Inr d"
    "map security_result rest = map Inr ds"
    by (cases decoded) auto
  obtain sec per_sec where sr: "d = (sec, per_sec)" by (cases d)
  show ?case
    using Cons.IH [OF d(3)] d sr
    by (auto simp: ebind_def greater_than_def nested_results_def)
qed

lemma security_result_keys:
  "security_result item = Inr (security, per_sec) \<Longrightarrow>
     map fst per_sec = [SStr ''security_data'', SStr ''field_exceptions'', SStr ''security_errors'']"
  by (auto simp: security_result_def ebind_def per_security_result_def
      split: sum.splits if_splits)

text \<open>
  C3.  For a reference message without a response error whose security-data collection
  can be iterated and whose entries all decode: with more than one entry the decoder
  returns \<open>None\<close> and the mapping from each security to its Per-Security Result; with
  exactly one entry it returns that security and its Per-Security Result, flat.  Only the
  number of entries decides.
\<close>

theorem ref_shape_by_cardinality:
  assumes "\<not> hasElement (asElement msg) RESPONSE_ERROR"
    and "getElement (asElement msg) SECURITY_DATA = Inr security_data"
    and "isArray security_data \<or> isComplexType security_data"
    and "map security_result (children security_data) = map Inr decoded"
  shows "(1 < length decoded \<longrightarrow>
            process_ref_data_msg msg = Inr (None, nested_results decoded []))
     \<and> (\<forall>security per_sec. decoded = [(security, per_sec)] \<longrightarrow>
            process_ref_data_msg msg = Inr (Some security, per_sec))
     \<and> (\<forall>(security, per_sec) \<in> set decoded.
            map fst per_sec
              = [SStr ''security_data'', SStr ''field_exceptions'', SStr ''security_errors''])"
proof -
  have has: "hasElement (asElement msg) SECURITY_DATA"
    using assms(2) by (auto simp: hasElement_def getElement_def split: option.splits)
  have len: "get_iterator_len security_data = Some (length decoded)"
    using assms(3) map_eq_imp_length_eq [OF assms(4)]
    by (auto simp: get_iterator_len_def)
  have it: "iterate (get_bbg_iterator security_data) = Inr (children security_data)"
    using assms(3) by (auto simp: get_bbg_iterator_def iterate_def)
  have run: "process_ref_data_msg msg
      = ebind (ref_loop (Some (length decoded)) (children security_data) (None, []))
          (\<lambda>(security, results).
             Inr (if 1 < length decoded then None else security, results))"
    using assms(1) assms(2) has len it
    by (auto simp: process_ref_data_msg_def ebind_def greater_than_def split: sum.splits)
  have loop: "ref_loop (Some (length decoded)) (children security_data) (None, [])
      = Inr (if decoded = [] then (None, [])
             else (Some (fst (last decoded)),
                   if 1 < length decoded then nested_results decoded [] else snd (last decoded)))"
    by (rule ref_loop_decoded [OF assms(4)])
  have keys: "\<forall>(security, per_sec) \<in> set decoded.
      map fst per_sec = [SStr ''security_data'', SStr ''field_exceptions'', SStr ''security_errors'']"
  proof clarify
    fix security per_sec
    assume "(security, per_sec) \<in> set decoded"
    then have "Inr (security, per_sec) \<in> set (map security_result (children security_data))"
      using assms(4) by auto
    then obtain item where "security_result item = Inr (security, per_sec)" by auto
    then show "map fst per_sec
        = [SStr ''security_data'', SStr ''field_exceptions'', SStr ''security_errors'']"
      by (rule security_result_keys)
  qed
  show ?thesis
    using run loop keys by (auto simp: ebind_def)
qed


lemma security_entry_result: "security_result (security_entry nm) = Inr (nm, priced)"
  by (simp add: security_result_def security_entry_def priced_def per_security_result_def
      ebind_def getElementAsString_def getElement_def hasElement_def greater_than_def
      get_iterator_len_def get_bbg_iterator_def iterate_def element_factory.simps
      BBG_SEQUENCES_def field_factory_def process_scalar_def name_value_def setitem_def
      dict_set_plain dict_contains_plain field_exception_factory_def
      SECURITY_def FIELD_DATA_def SECURITY_ERROR_def FIELD_EXCEPTIONS_def Let_def)

lemma reference_response_parts:
  "\<not> hasElement (asElement (reference_response names)) RESPONSE_ERROR"
  "getElement (asElement (reference_response names)) SECURITY_DATA
     = Inr (Element ''securityData'' SEQUENCE True True False SNone (map security_entry names))"
  by (simp_all add: reference_response_def hasElement_def getElement_def
      RESPONSE_ERROR_def SECURITY_DATA_def)

theorem ref_shape_by_cardinality_witness:
  "process_ref_data_msg (reference_response [''IBM US Equity'', ''MSFT US Equity''])
     = Inr (None, [(SStr ''IBM US Equity'', PDict priced), (SStr ''MSFT US Equity'', PDict priced)])
   \<and> process_ref_data_msg (reference_response [''IBM US Equity''])
     = Inr (Some ''IBM US Equity'', priced)"
proof -
  have two: "map security_result
        (children (Element ''securityData'' SEQUENCE True True False SNone
           (map security_entry [''IBM US Equity'', ''MSFT US Equity''])))
      = map Inr [(''IBM US Equity'', priced), (''MSFT US Equity'', priced)]"
    by (simp add: security_entry_result)
  have one: "map security_result
        (children (Element ''securityData'' SEQUENCE True True False SNone
           (map security_entry [''IBM US Equity''])))
      = map Inr [(''IBM US Equity'', priced)]"
    by (simp add: security_entry_result)
  have "process_ref_data_msg (reference_response [''IBM US Equity'', ''MSFT US Equity''])
      = Inr (None, nested_results [(''IBM US Equity'', priced), (''MSFT US Equity'', priced)] [])"
    using ref_shape_by_cardinality [OF reference_response_parts(1) reference_response_parts(2) _ two]
    by simp
  moreover have "process_ref_data_msg (reference_response [''IBM US Equity''])
      = Inr (Some ''IBM US Equity'', priced)"
    using ref_shape_by_cardinality [OF reference_response_parts(1) reference_response_parts(2) _ one]
    by simp
  ultimately show ?thesis
    by (simp add: nested_results_def dict_set_plain)
qed

subsection \<open>Recursive element decoder\<close>

lemma duplicates_grow:
  "element_factory e dups res = Inr (dups', r') \<Longrightarrow> \<exists>more. dups' = dups @ more"
  "element_factory_each es dups entry = Inr (dups', entry') \<Longrightarrow> \<exists>more. dups' = dups @ more"
proof (induction e dups res and es dups entry arbitrary: dups' r' and dups' entry'
    rule: element_factory_element_factory_each.induct)
  case (1 element duplicate_elements results)
  show ?case
  proof (cases "isValid element \<and> el_datatype element \<in> set BBG_SEQUENCES")
    case False
    then show ?thesis
      using "1.prems"
      by (auto simp: element_factory.simps split: if_splits sum.splits)
  next
    case True
    let ?dc = "dict_contains (case results of None \<Rightarrow> [] | Some r \<Rightarrow> r) (SStr (el_name element))"
    let ?xb = "if \<not> ?dc then el_name element
               else el_name element @ ''_'' @ str_nat (length duplicate_elements)"
    let ?xc = "if \<not> ?dc then duplicate_elements else duplicate_elements @ [?xb]"
    from "1.prems" True obtain subs d2 entry2 where
      it: "iterate (get_bbg_iterator element) = Inr subs"
      and each: "element_factory_each subs ?xc [] = Inr (d2, entry2)"
      and d2: "dups' = d2"
      by (auto simp: element_factory.simps Let_def split: sum.splits if_splits)
    have valid: "\<not> \<not> isValid element" and seq: "el_datatype element \<in> set BBG_SEQUENCES"
      using True by simp_all
    have "\<exists>more. d2 = ?xc @ more"
      by (rule "1.IH" [OF valid seq refl refl refl refl refl it each])
    then show ?thesis using d2 by (auto split: if_splits)
  qed
next
  case (2 duplicate_elements entry)
  then show ?case by simp
next
  case (3 sub_element rest duplicate_elements entry)
  from "3.prems" obtain d1 e1 where
    first: "element_factory sub_element duplicate_elements (Some entry) = Inr (d1, e1)"
    and rest: "element_factory_each rest d1 e1 = Inr (dups', entry')"
    by (auto split: sum.splits)
  have "\<exists>more. d1 = duplicate_elements @ more" using "3.IH"(1) [OF first] .
  moreover have "\<exists>more. dups' = d1 @ more" using "3.IH"(2) [OF first refl rest] .
  ultimately show ?case by auto
qed


lemma update_fresh: "map_of al k = None \<Longrightarrow> AList.update k v al = al @ [(k, v)]"
  by (induction al) (auto split: if_splits)

lemma renamed_differs: "nm @ ''_'' @ sfx \<noteq> nm"
proof
  assume "nm @ ''_'' @ sfx = nm"
  then have "length (nm @ ''_'' @ sfx) = length nm" by simp
  then show False by simp
qed

lemma composite_unfold:
  assumes "isValid e" and "el_datatype e \<in> set BBG_SEQUENCES"
    and "element_factory e dups (Some r) = Inr (dups', r')"
  shows "\<exists>subs entry. iterate (get_bbg_iterator e) = Inr subs
      \<and> (if dict_contains r (SStr (el_name e))
          then element_factory_each subs
                 (dups @ [el_name e @ ''_'' @ str_nat (length dups)]) [] = Inr (dups', entry)
             \<and> r' = dict_set (dict_set r (SStr (el_name e @ ''_'' @ str_nat (length dups))) (PDict []))
                      (SStr (el_name e @ ''_'' @ str_nat (length dups))) (PDict entry)
          else element_factory_each subs dups [] = Inr (dups', entry)
             \<and> r' = dict_set (dict_set r (SStr (el_name e)) (PDict []))
                      (SStr (el_name e)) (PDict entry))"
  using assms
  by (auto simp: element_factory.simps Let_def split: sum.splits if_splits)

lemma composite_keeps_entries:
  assumes "isValid e" and "el_datatype e \<in> set BBG_SEQUENCES"
    and "element_factory e dups (Some r) = Inr (dups', r')"
  shows "(\<not> dict_contains r (SStr (el_name e)) \<longrightarrow>
            (\<exists>entry. r' = r @ [(SStr (el_name e), PDict entry)]))
     \<and> (dict_contains r (SStr (el_name e)) \<longrightarrow>
            el_name e @ ''_'' @ str_nat (length dups) \<noteq> el_name e
          \<and> (\<exists>entry. r' = dict_set r (SStr (el_name e @ ''_'' @ str_nat (length dups))) (PDict entry))
          \<and> map_of r' (SStr (el_name e)) = map_of r (SStr (el_name e))
          \<and> (\<forall>k. k \<noteq> SStr (el_name e @ ''_'' @ str_nat (length dups)) \<longrightarrow> map_of r' k = map_of r k)
          \<and> length dups < length dups'
          \<and> dups' ! length dups = el_name e @ ''_'' @ str_nat (length dups))"
proof -
  from composite_unfold [OF assms] obtain subs entry where
    u: "if dict_contains r (SStr (el_name e))
          then element_factory_each subs
                 (dups @ [el_name e @ ''_'' @ str_nat (length dups)]) [] = Inr (dups', entry)
             \<and> r' = dict_set (dict_set r (SStr (el_name e @ ''_'' @ str_nat (length dups))) (PDict []))
                      (SStr (el_name e @ ''_'' @ str_nat (length dups))) (PDict entry)
          else element_factory_each subs dups [] = Inr (dups', entry)
             \<and> r' = dict_set (dict_set r (SStr (el_name e)) (PDict []))
                      (SStr (el_name e)) (PDict entry)"
    by blast
  show ?thesis
  proof (cases "dict_contains r (SStr (el_name e))")
    case False
    then have "r' = dict_set r (SStr (el_name e)) (PDict entry)"
      using u by (simp add: dict_set_plain)
    then have "r' = r @ [(SStr (el_name e), PDict entry)]"
      using False by (simp add: dict_set_plain dict_contains_plain update_fresh)
    then show ?thesis using False by blast
  next
    case True
    let ?renamed = "el_name e @ ''_'' @ str_nat (length dups)"
    from u True have each: "element_factory_each subs (dups @ [?renamed]) [] = Inr (dups', entry)"
      and r': "r' = dict_set r (SStr ?renamed) (PDict entry)"
      by (simp_all add: dict_set_plain)
    from duplicates_grow(2) [OF each] obtain more where more: "dups' = (dups @ [?renamed]) @ more"
      by blast
    have "?renamed \<noteq> el_name e" by (rule renamed_differs)
    moreover have "\<forall>k. k \<noteq> SStr ?renamed \<longrightarrow> map_of r' k = map_of r k"
      using r' by (simp add: dict_set_plain update_conv')
    moreover have "length dups < length dups'" using more by simp
    moreover have "dups' ! length dups = ?renamed" using more by (simp add: nth_append)
    ultimately show ?thesis using True r' by auto
  qed
qed


lemma scalar_replaces:
  assumes "isValid e" and "el_datatype e \<notin> set BBG_SEQUENCES"
    and "field_factory e = Inr [PStr nm, v]"
  shows "element_factory e dups (Some r) = Inr (dups, dict_set r (SStr nm) v)"
  using assms by (simp add: element_factory.simps setitem_def)

lemma two_composite_children:
  assumes "isValid p" and "el_datatype p \<in> set BBG_SEQUENCES"
    and "isArray p \<or> isComplexType p" and "children p = [c1, c2]"
    and "isValid c1" and "el_datatype c1 \<in> set BBG_SEQUENCES" and "isArray c1 \<or> isComplexType c1"
    and "isValid c2" and "el_datatype c2 \<in> set BBG_SEQUENCES" and "isArray c2 \<or> isComplexType c2"
    and "el_name c2 = el_name c1"
    and "element_factory_each (children c1) dups [] = Inr (d1, entry1)"
    and "element_factory_each (children c2)
           (d1 @ [el_name c1 @ ''_'' @ str_nat (length d1)]) [] = Inr (d2, entry2)"
  shows "element_factory p dups None
     = Inr (d2, [(SStr (el_name p),
                  PDict [(SStr (el_name c1), PDict entry1),
                         (SStr (el_name c1 @ ''_'' @ str_nat (length d1)), PDict entry2)])])"
proof -
  have it: "iterate (get_bbg_iterator p) = Inr [c1, c2]"
    "iterate (get_bbg_iterator c1) = Inr (children c1)"
    "iterate (get_bbg_iterator c2) = Inr (children c2)"
    using assms(3,4,7,10) by (auto simp: iterate_def get_bbg_iterator_def)
  have first: "element_factory c1 dups (Some []) = Inr (d1, [(SStr (el_name c1), PDict entry1)])"
    using assms(5,6,12) it(2)
    by (simp add: element_factory.simps [of c1] dict_contains_plain dict_set_plain)
  have second: "element_factory c2 d1 (Some [(SStr (el_name c1), PDict entry1)])
      = Inr (d2, [(SStr (el_name c1), PDict entry1),
                  (SStr (el_name c1 @ ''_'' @ str_nat (length d1)), PDict entry2)])"
    using assms(8,9,11,13) it(3) renamed_differs [of "el_name c1" "str_nat (length d1)"]
    by (simp add: element_factory.simps [of c2] dict_contains_plain dict_set_plain)
  have "element_factory_each [c1, c2] dups []
      = Inr (d2, [(SStr (el_name c1), PDict entry1),
                  (SStr (el_name c1 @ ''_'' @ str_nat (length d1)), PDict entry2)])"
    using first second by simp
  then show ?thesis
    using assms(1,2) it(1)
    by (simp add: element_factory.simps [of p] dict_contains_plain dict_set_plain)
qed


lemma str_nat_0: "str_nat 0 = ''0''"
  by (simp add: str_nat.simps [of 0] digit_char_def)

text \<open>
  C4, as the claim states it, fails.  A scalar is stored under its own name, so the second
  of two scalars of one name replaces the first; and the name minted for a repeated
  composite replaces the entry of a sibling that already bears that name.
\<close>

theorem repeated_name_overwrites:
  "element_factory two_names [] None
     = Inr ([], [(SStr ''fieldData'', PDict [(SStr ''NAME'', PStr ''second'')])])
   \<and> element_factory masked [] None
     = Inr ([''DVD_HIST_0''],
            [(SStr ''fieldData'',
              PDict [(SStr ''DVD_HIST_0'', PDict [(SStr ''Amount'', PScalar (SFloat ''0.5''))]),
                     (SStr ''DVD_HIST'', PDict [(SStr ''Amount'', PScalar (SFloat ''0.5''))])])])"
  by (simp add: two_names_def masked_def dividend_def element_factory.simps BBG_SEQUENCES_def
      iterate_def get_bbg_iterator_def dict_contains_plain dict_set_plain field_factory_def
      process_string_def process_scalar_def name_value_def ebind_def setitem_def Let_def
      str_nat_0)

text \<open>
  C4, amended.  A composite element (sequence, byte array or choice) whose name is new at
  its level is appended under its name.  One whose name is already there is stored under
  the name followed by \<open>_\<close> and the number of duplicates registered so far: that key
  differs from the name, the entry under the name and every entry under another key stay
  as they were, and the registry grows, so the next repeat gets a larger index.  Decoding
  an element with two same-named composite children yields the two distinct keys.  A
  scalar element is stored under its own name.
\<close>

theorem repeated_composite_names_get_fresh_keys:
  "(isValid e \<and> el_datatype e \<in> set BBG_SEQUENCES
      \<and> element_factory e dups (Some r) = Inr (dups', r') \<longrightarrow>
      (\<not> dict_contains r (SStr (el_name e)) \<longrightarrow>
            (\<exists>entry. r' = r @ [(SStr (el_name e), PDict entry)]))
     \<and> (dict_contains r (SStr (el_name e)) \<longrightarrow>
            el_name e @ ''_'' @ str_nat (length dups) \<noteq> el_name e
          \<and> (\<exists>entry. r' = dict_set r (SStr (el_name e @ ''_'' @ str_nat (length dups))) (PDict entry))
          \<and> map_of r' (SStr (el_name e)) = map_of r (SStr (el_name e))
          \<and> (\<forall>k. k \<noteq> SStr (el_name e @ ''_'' @ str_nat (length dups)) \<longrightarrow> map_of r' k = map_of r k)
          \<and> length dups < length dups'
          \<and> dups' ! length dups = el_name e @ ''_'' @ str_nat (length dups)))
   \<and> (isValid p \<and> el_datatype p \<in> set BBG_SEQUENCES
      \<and> (isArray p \<or> isComplexType p) \<and> children p = [c1, c2]
      \<and> isValid c1 \<and> el_datatype c1 \<in> set BBG_SEQUENCES \<and> (isArray c1 \<or> isComplexType c1)
      \<and> isValid c2 \<and> el_datatype c2 \<in> set BBG_SEQUENCES \<and> (isArray c2 \<or> isComplexType c2)
      \<and> el_name c2 = el_name c1
      \<and> element_factory_each (children c1) ds [] = Inr (d1, entry1)
      \<and> element_factory_each (children c2)
           (d1 @ [el_name c1 @ ''_'' @ str_nat (length d1)]) [] = Inr (d2, entry2) \<longrightarrow>
      element_factory p ds None
        = Inr (d2, [(SStr (el_name p),
                     PDict [(SStr (el_name c1), PDict entry1),
                            (SStr (el_name c1 @ ''_'' @ str_nat (length d1)), PDict entry2)])])
      \<and> el_name c1 @ ''_'' @ str_nat (length d1) \<noteq> el_name c1)
   \<and> (isValid x \<and> el_datatype x \<notin> set BBG_SEQUENCES \<and> field_factory x = Inr [PStr nm, v] \<longrightarrow>
      element_factory x dups (Some r) = Inr (dups, dict_set r (SStr nm) v))"
  using composite_keeps_entries [of e dups r dups' r']
    two_composite_children [of p c1 c2 ds d1 entry1 d2 entry2]
    renamed_differs [of "el_name c1" "str_nat (length d1)"]
    scalar_replaces [of x nm v dups r]
  by blast

theorem repeated_composite_names_get_fresh_keys_witness:
  "element_factory two_dividends [] None
     = Inr ([''DVD_HIST_0''],
            [(SStr ''fieldData'',
              PDict [(SStr ''DVD_HIST'', PDict [(SStr ''Amount'', PScalar (SFloat ''0.5''))]),
                     (SStr ''DVD_HIST_0'', PDict [(SStr ''Amount'', PScalar (SFloat ''0.5''))])])])"
proof -
  have amount: "element_factory_each (children dividend) ds []
      = Inr (ds, [(SStr ''Amount'', PScalar (SFloat ''0.5''))])" for ds
    by (simp add: dividend_def element_factory.simps BBG_SEQUENCES_def field_factory_def
        process_scalar_def name_value_def ebind_def setitem_def dict_set_plain)
  have shape: "isValid two_dividends" "el_datatype two_dividends \<in> set BBG_SEQUENCES"
    "isArray two_dividends \<or> isComplexType two_dividends"
    "children two_dividends = [dividend, dividend]"
    "isValid dividend" "el_datatype dividend \<in> set BBG_SEQUENCES"
    "isArray dividend \<or> isComplexType dividend" "el_name dividend = ''DVD_HIST''"
    "el_name two_dividends = ''fieldData''"
    by (simp_all add: two_dividends_def dividend_def BBG_SEQUENCES_def)
  show ?thesis
    using repeated_composite_names_get_fresh_keys
      [of _ _ _ _ _ two_dividends dividend dividend "[]" "[]"
        "[(SStr ''Amount'', PScalar (SFloat ''0.5''))]"
        "[''DVD_HIST_0'']" "[(SStr ''Amount'', PScalar (SFloat ''0.5''))]"]
      shape amount [of "[]"] amount [of "[''DVD_HIST_0'']"]
    by (simp add: str_nat_0)
qed

subsection \<open>Response accumulator\<close>

lemma reference_response_has_data:
  "hasElement (asElement (reference_response names)) SECURITY_DATA"
  by (simp add: reference_response_def hasElement_def SECURITY_DATA_def)

lemma reference_response_header:
  "correlationIds (reference_response names) = [1]"
  "messageType (reference_response names) = ''ReferenceDataResponse''"
  by (simp_all add: reference_response_def)

lemma reference_response_decodes:
  "process_ref_data_msg (reference_response [n]) = Inr (Some n, priced)"
  "process_ref_data_msg (reference_response [n1, n2])
     = Inr (None, nested_results [(n1, priced), (n2, priced)] [])"
  using reference_response_parts [of "[n]"] reference_response_parts [of "[n1, n2]"]
  by (simp_all add: process_ref_data_msg_def ebind_def iterate_def get_bbg_iterator_def
      get_iterator_len_def greater_than_def security_entry_result nested_results_def
      reference_response_has_data)

lemma plain_security_key: "plain (security_key security)"
  by (cases security) (simp_all add: security_key_def)

lemma key_eq_commute: "key_eq a b = key_eq b a"
  by (auto simp: key_eq_def)

lemma lookup_update_other:
  "plain key \<Longrightarrow> k \<noteq> key \<Longrightarrow> lookup (AList.update key v d) k = lookup d k"
  by (induction d) (auto simp: key_eq_plain key_eq_commute [of key k])

text \<open>
  The keyed path of the loop keeps what the other keys hold: a fragment for a security
  changes the entry of that security only.
\<close>

lemma keyed_fragment_keeps_others:
  assumes "is_true security" and "accumulate st security fragment t = Inr st'"
    and "k \<noteq> security_key security"
  shows "dict_getitem (acc_output st') k = dict_getitem (acc_output st) k"
proof -
  have "lookup (acc_output st') k = lookup (acc_output st) k"
    using assms
    by (auto simp: accumulate_def Let_def ebind_def dict_set_plain plain_security_key
        lookup_update_other split: if_splits sum.splits)
  then show ?thesis by (simp add: dict_getitem_def)
qed

text \<open>
  C1.  The flat path does not: a flat fragment that is the first of its tag becomes the
  whole output (\<open>output = sec_results\<close>), and the result established for a security by an
  earlier message is discarded.  A reference response for three securities arrives as a
  partial response with one security and a final response with two: the first security
  is missing from what \<open>process_session\<close> returns.  When a later message brings that
  security again, its tag has been seen, the loop merges into \<open>output[security]\<close>, which is
  no longer there, and the call ends with a \<open>KeyError\<close>.
\<close>

theorem established_result_discarded:
  "process_session 1 REFERENCE_DATA
      [\<lparr>messages = [reference_response [''IBM US Equity'']], eventType = PARTIAL_RESPONSE\<rparr>,
       \<lparr>messages = [reference_response [''MSFT US Equity'', ''AAPL US Equity'']],
        eventType = RESPONSE\<rparr>]
     = Some (Inr [(SStr ''MSFT US Equity'', PDict priced), (SStr ''AAPL US Equity'', PDict priced)])
   \<and> process_session 1 REFERENCE_DATA
      [\<lparr>messages = [reference_response [''IBM US Equity'']], eventType = PARTIAL_RESPONSE\<rparr>,
       \<lparr>messages = [reference_response [''MSFT US Equity'', ''AAPL US Equity'']],
        eventType = PARTIAL_RESPONSE\<rparr>,
       \<lparr>messages = [reference_response [''IBM US Equity'']], eventType = RESPONSE\<rparr>]
     = Some (Inl KeyError)"
  by (simp add: process_session_def process_msg_def reference_response_decodes ebind_def
      accumulate_def record_response_def get_response_count_def initial_def is_true_def
      security_key_def dict_set_plain dict_getitem_plain nested_results_def Let_def
      reference_response_header)

end
